theory Spec2Isabelle
  imports Main "HOL-Library.Sublist" "HOL-Library.Word"
begin

section \<open>The kubeip agent bootstrap (cmd/main.go)\<close>

text \<open>
  The agent's \<^verbatim>\<open>main\<close> package parses flags, builds a logger, obtains Kubernetes
  credentials, builds a client, resolves the node it runs on and then waits for a shutdown
  signal. Every call that leaves the package (the file system, client-go, the node explorer,
  the signal handler) is a field of the record \<open>world\<close>; every function of the package is a
  HOL function of the world that returns its Go result together with the list of calls and
  log lines it made, in order.
\<close>

subsection \<open>Errors\<close>

text \<open>
  An error raised outside the package is an \<open>ext_error\<close>, named by its message. The package
  itself creates one error with \<^verbatim>\<open>errors.New\<close> (the sentinel \<^verbatim>\<open>errEmptyPath\<close>) and wraps
  errors with \<^verbatim>\<open>errors.Wrap\<close>/\<^verbatim>\<open>errors.Wrapf\<close> of github.com/pkg/errors. The sentinel is
  an unexported variable, so no library call can return it or an error wrapping it: library
  calls return \<open>ext_error\<close>, which enters \<open>error\<close> only through \<open>External\<close>.
\<close>

datatype ext_error = ExtError string

datatype error =
    errors_New string
  | External ext_error
  | errors_Wrap error string

definition errEmptyPath :: error where
  "errEmptyPath = errors_New ''empty path''"

text \<open>\<^verbatim>\<open>errors.Is\<close>: the error itself or any error down its chain of causes is the target.\<close>

fun errors_Is :: "error \<Rightarrow> error \<Rightarrow> bool" where
  "errors_Is (errors_Wrap cause msg) target =
     (errors_Wrap cause msg = target \<or> errors_Is cause target)"
| "errors_Is err target = (err = target)"

text \<open>The \<^verbatim>\<open>Error()\<close> string; a wrapped error prints as \<^verbatim>\<open>msg + ": " + cause\<close>.\<close>

fun Error :: "error \<Rightarrow> string" where
  "Error (errors_New s) = s"
| "Error (External (ExtError s)) = s"
| "Error (errors_Wrap cause msg) = msg @ '': '' @ Error cause"

subsection \<open>Logging (logrus)\<close>

datatype logrus_Level =
  PanicLevel | FatalLevel | ErrorLevel | WarnLevel | InfoLevel | DebugLevel | TraceLevel

datatype logrus_Formatter =
    TextFormatter (FullTimestamp: bool)
  | JSONFormatter

record Logger =
  Level :: logrus_Level
  Formatter :: logrus_Formatter
  ReportCaller :: bool

datatype field_value = StringField string | BoolField bool

record Entry =
  entry_Logger :: Logger
  Data :: "string \<rightharpoonup> field_value"

text \<open>\<^verbatim>\<open>logrus.New()\<close>: info level, a default text formatter, no caller reporting.\<close>

definition logrus_New :: Logger where
  "logrus_New = \<lparr>Level = InfoLevel, Formatter = TextFormatter False, ReportCaller = False\<rparr>"

definition SetLevel :: "Logger \<Rightarrow> logrus_Level \<Rightarrow> Logger" where
  "SetLevel logger l = logger\<lparr>Level := l\<rparr>"

definition SetFormatter :: "Logger \<Rightarrow> logrus_Formatter \<Rightarrow> Logger" where
  "SetFormatter logger f = logger\<lparr>Formatter := f\<rparr>"

definition SetReportCaller :: "Logger \<Rightarrow> bool \<Rightarrow> Logger" where
  "SetReportCaller logger b = logger\<lparr>ReportCaller := b\<rparr>"

text \<open>
  \<^verbatim>\<open>logger.WithFields\<close> allocates an entry and returns a pointer to it; a Go pointer is an
  \<open>option\<close>, \<open>None\<close> being \<^verbatim>\<open>nil\<close>.
\<close>

definition WithFields :: "Logger \<Rightarrow> (string \<rightharpoonup> field_value) \<Rightarrow> Entry option" where
  "WithFields logger fs = Some \<lparr>entry_Logger = logger, Data = fs\<rparr>"

definition WithField :: "Entry \<Rightarrow> string \<Rightarrow> field_value \<Rightarrow> Entry" where
  "WithField entry k v = entry\<lparr>Data := (Data entry)(k \<mapsto> v)\<rparr>"

text \<open>
  \<^verbatim>\<open>prepareLogger\<close>. The package variable \<^verbatim>\<open>version\<close> (set at link time) is the first
  argument. The \<^verbatim>\<open>switch\<close> compares the level string with twelve literals.
\<close>

definition prepareLogger :: "string \<Rightarrow> string \<Rightarrow> bool \<Rightarrow> Entry option" where
  "prepareLogger version level json =
     (let logger = logrus_New;
          logger =
            (if level = ''debug'' \<or> level = ''DEBUG'' then SetLevel logger DebugLevel
             else if level = ''info'' \<or> level = ''INFO'' then SetLevel logger InfoLevel
             else if level = ''warning'' \<or> level = ''WARNING'' then SetLevel logger WarnLevel
             else if level = ''error'' \<or> level = ''ERROR'' then SetLevel logger ErrorLevel
             else if level = ''fatal'' \<or> level = ''FATAL'' then SetLevel logger FatalLevel
             else if level = ''panic'' \<or> level = ''PANIC'' then SetLevel logger PanicLevel
             else SetLevel logger WarnLevel);
          logger = SetFormatter logger (TextFormatter True);
          logger = (if json then SetFormatter logger JSONFormatter else logger);
          logger = SetReportCaller logger True
      in WithFields logger [''version'' \<mapsto> StringField version])"

subsection \<open>Contexts\<close>

text \<open>
  A context is the chain of values attached to it, innermost first, and whether its
  \<^verbatim>\<open>Done\<close> channel is ever closed from outside (the shutdown signal arrives). A key is
  compared with its Go type: \<open>contextKey\<close> is the package's unexported key type, \<open>foreignKey\<close>
  stands for keys of every other type.
\<close>

datatype ctx_key = contextKey string | foreignKey string

record go_context =
  ctx_values :: "(ctx_key \<times> bool) list"
  ctx_cancelled :: bool

definition developModeKey :: ctx_key where
  "developModeKey = contextKey ''develop-mode''"

definition context_Value :: "go_context \<Rightarrow> ctx_key \<Rightarrow> bool option" where
  "context_Value ctx k = map_of (ctx_values ctx) k"

text \<open>
  \<^verbatim>\<open>context.WithCancel\<close>: the child has the parent's values and is done when the parent is;
  its own \<^verbatim>\<open>cancel\<close> is only called by the \<^verbatim>\<open>defer\<close> of \<^verbatim>\<open>run\<close>, when \<^verbatim>\<open>run\<close> returns.
\<close>

definition context_WithCancel :: "go_context \<Rightarrow> go_context" where
  "context_WithCancel parent =
     \<lparr>ctx_values = ctx_values parent, ctx_cancelled = ctx_cancelled parent\<rparr>"

definition context_WithValue :: "go_context \<Rightarrow> ctx_key \<Rightarrow> bool \<Rightarrow> go_context" where
  "context_WithValue parent k v = parent\<lparr>ctx_values := (k, v) # ctx_values parent\<rparr>"

subsection \<open>The configuration and the world\<close>

text \<open>
  Modelled from the spec: the type \<^verbatim>\<open>config.Config\<close> of internal/config is not among the
  sources. The spec gives it as a flat record of scalar fields: node name, kubeconfig
  path, retry interval, retry attempt count, log level, JSON-logging flag, develop-mode
  flag. The code under study reads \<^verbatim>\<open>KubeConfigPath\<close> and \<^verbatim>\<open>DevelopMode\<close> only.
\<close>

record Config =
  NodeName :: string
  KubeConfigPath :: string
  RetryInterval :: "64 word"
  RetryAttempts :: int
  LogLevel :: string
  LogJSON :: bool
  DevelopMode :: bool

datatype rest_Config = RestConfig string

datatype Clientset = Clientset rest_Config

record Node =
  node_Name :: string

text \<open>
  The calls that leave the package. A library call returns either an error or a non-nil
  result, as client-go and \<^verbatim>\<open>os.ReadFile\<close> do. \<open>GetNode\<close> stands for
  \<^verbatim>\<open>node.NewExplorer(clientset).GetNode(ctx)\<close> of internal/node, which is not among the
  sources. \<open>signal_arrives\<close> tells whether the process ever receives SIGINT or SIGTERM.
\<close>

record world =
  os_ReadFile :: "string \<Rightarrow> ext_error + string"
  RESTConfigFromKubeConfig :: "string \<Rightarrow> ext_error + rest_Config"
  InClusterConfig :: "ext_error + rest_Config"
  NewForConfig :: "rest_Config \<Rightarrow> ext_error + Clientset"
  GetNode :: "Clientset \<Rightarrow> go_context \<Rightarrow> ext_error + Node"
  signal_arrives :: bool

datatype event =
    EvReadFile string
  | EvRESTConfigFromKubeConfig string
  | EvInClusterConfig
  | EvNewForConfig rest_Config
  | EvGetNode Clientset go_context
  | EvLog Entry logrus_Level string
  | EvWaitDone
  | EvCancel

fun is_file_read :: "event \<Rightarrow> bool" where
  "is_file_read (EvReadFile p) = True"
| "is_file_read e = False"

fun is_parse :: "event \<Rightarrow> bool" where
  "is_parse (EvRESTConfigFromKubeConfig d) = True"
| "is_parse e = False"

fun is_in_cluster :: "event \<Rightarrow> bool" where
  "is_in_cluster EvInClusterConfig = True"
| "is_in_cluster e = False"

fun is_new_client :: "event \<Rightarrow> bool" where
  "is_new_client (EvNewForConfig rc) = True"
| "is_new_client e = False"

fun is_get_node :: "event \<Rightarrow> bool" where
  "is_get_node (EvGetNode cs ctx) = True"
| "is_get_node e = False"

fun is_wait :: "event \<Rightarrow> bool" where
  "is_wait EvWaitDone = True"
| "is_wait e = False"

definition attempted :: "(event \<Rightarrow> bool) \<Rightarrow> event list \<Rightarrow> bool" where
  "attempted kind tr = list_ex kind tr"

definition call_count :: "(event \<Rightarrow> bool) \<Rightarrow> event list \<Rightarrow> nat" where
  "call_count kind tr = length (filter kind tr)"

subsection \<open>Credential resolution\<close>

text \<open>
  A Go result \<^verbatim>\<open>(*rest.Config, error)\<close> is a pair of options: \<open>None\<close> is \<^verbatim>\<open>nil\<close>.
\<close>

type_synonym config_result = "rest_Config option \<times> error option"

definition kubeConfigFromPath :: "world \<Rightarrow> string \<Rightarrow> config_result \<times> event list" where
  "kubeConfigFromPath w kubepath =
     (if kubepath = '''' then ((None, Some errEmptyPath), [])
      else
        (case os_ReadFile w kubepath of
           Inl err \<Rightarrow>
             ((None, Some (errors_Wrap (External err) (''reading kubeconfig at '' @ kubepath))),
              [EvReadFile kubepath])
         | Inr data \<Rightarrow>
             (case RESTConfigFromKubeConfig w data of
                Inl err \<Rightarrow>
                  ((None, Some (errors_Wrap (External err)
                      (''building rest config from kubeconfig at '' @ kubepath))),
                   [EvReadFile kubepath, EvRESTConfigFromKubeConfig data])
              | Inr cfg \<Rightarrow>
                  ((Some cfg, None),
                   [EvReadFile kubepath, EvRESTConfigFromKubeConfig data]))))"

text \<open>
  \<^verbatim>\<open>retrieveKubeConfig\<close>. \<open>fallback\<close> is the code after the first \<^verbatim>\<open>if\<close>: it is reached when
  \<^verbatim>\<open>err\<close> is \<^verbatim>\<open>nil\<close> or is the sentinel.
\<close>

definition retrieveKubeConfig :: "world \<Rightarrow> Entry \<Rightarrow> Config \<Rightarrow> config_result \<times> event list" where
  "retrieveKubeConfig w log cfg =
     (case kubeConfigFromPath w (KubeConfigPath cfg) of
        ((kubeconfig, err), tr) \<Rightarrow>
          (let fallback =
             (case kubeconfig of
                Some k \<Rightarrow>
                  ((Some k, None),
                   tr @ [EvLog log DebugLevel ''using kube config from env variables''])
              | None \<Rightarrow>
                  (case InClusterConfig w of
                     Inl e \<Rightarrow>
                       ((None, Some (errors_Wrap (External e) ''retrieving in node kube config'')),
                        tr @ [EvInClusterConfig])
                   | Inr inClusterConfig \<Rightarrow>
                       ((Some inClusterConfig, None),
                        tr @ [EvInClusterConfig,
                              EvLog log DebugLevel ''using in node kube config''])))
           in
             (case err of
                Some e \<Rightarrow>
                  if \<not> errors_Is e errEmptyPath
                  then ((None, Some (errors_Wrap e ''retrieving kube config from path'')), tr)
                  else fallback
              | None \<Rightarrow> fallback)))"

subsection \<open>The run\<close>

text \<open>
  What a call does in the end: it returns (an error or \<^verbatim>\<open>nil\<close>), ends the process with an
  exit code, panics on a nil pointer, or blocks for ever on a channel that is never closed.
\<close>

datatype outcome = Returns "error option" | Exits int | Panics | Blocks

text \<open>
  The variables of \<^verbatim>\<open>run\<close> when it stops: the derived context, the configuration it was
  given (a Go struct passed by value) and the calls made so far.
\<close>

record run_frame =
  fr_ctx :: go_context
  fr_cfg :: Config
  fr_trace :: "event list"

text \<open>
  \<^verbatim>\<open>run\<close>. \<open>leave\<close> is a \<^verbatim>\<open>return\<close>: the deferred \<^verbatim>\<open>cancel()\<close> runs last. A nil
  \<^verbatim>\<open>restconfig\<close> with a nil error would be dereferenced by \<^verbatim>\<open>kubernetes.NewForConfig\<close>.
  The receive \<^verbatim>\<open><-ctx.Done()\<close> returns when the context is cancelled and blocks otherwise.
\<close>

definition run :: "world \<Rightarrow> go_context \<Rightarrow> Entry \<Rightarrow> Config \<Rightarrow> outcome \<times> run_frame" where
  "run w c log cfg =
     (let ctx = context_WithCancel c;
          ctx = (if DevelopMode cfg then context_WithValue ctx developModeKey True else ctx);
          started =
            [EvLog (WithField log ''develop-mode'' (BoolField (DevelopMode cfg))) InfoLevel
               ''kubeip agent started''];
          leave = (\<lambda>out tr.
            (out, \<lparr>fr_ctx = ctx, fr_cfg = cfg, fr_trace = started @ tr @ [EvCancel]\<rparr>))
      in
        (case retrieveKubeConfig w log cfg of
           ((restconfig, Some err), tr) \<Rightarrow>
             leave (Returns (Some (errors_Wrap err ''retrieving kube config''))) tr
         | ((None, None), tr) \<Rightarrow> leave Panics tr
         | ((Some rc, None), tr) \<Rightarrow>
             (case NewForConfig w rc of
                Inl err \<Rightarrow>
                  leave (Returns (Some (errors_Wrap (External err)
                           ''initializing kubernetes client'')))
                    (tr @ [EvNewForConfig rc])
              | Inr clientset \<Rightarrow>
                  (case GetNode w clientset ctx of
                     Inl err \<Rightarrow>
                       leave (Returns (Some (errors_Wrap (External err) ''getting node'')))
                         (tr @ [EvNewForConfig rc, EvGetNode clientset ctx])
                   | Inr n \<Rightarrow>
                       (let tr' = tr @ [EvNewForConfig rc, EvGetNode clientset ctx,
                                        EvLog log DebugLevel (''node name: '' @ node_Name n),
                                        EvWaitDone]
                        in
                          if ctx_cancelled ctx
                          then leave (Returns None)
                                 (tr' @ [EvLog log InfoLevel ''kubeip agent stopped''])
                          else (Blocks,
                                \<lparr>fr_ctx = ctx, fr_cfg = cfg, fr_trace = started @ tr'\<rparr>))))))"

text \<open>
  \<^verbatim>\<open>signals.SetupSignalHandler()\<close>: a context without values, cancelled when SIGINT or
  SIGTERM arrives.
\<close>

definition SetupSignalHandler :: "world \<Rightarrow> go_context" where
  "SetupSignalHandler w = \<lparr>ctx_values = [], ctx_cancelled = signal_arrives w\<rparr>"

text \<open>The flag values a \<^verbatim>\<open>*cli.Context\<close> gives by name.\<close>

record cli_Context =
  cli_String :: "string \<Rightarrow> string"
  cli_Bool :: "string \<Rightarrow> bool"

text \<open>
  \<^verbatim>\<open>runCmd\<close>. \<^verbatim>\<open>config.LoadConfig\<close> of internal/config is not among the sources and is an
  argument. \<^verbatim>\<open>log.Fatalf\<close> writes the line at fatal level and calls \<^verbatim>\<open>os.Exit(1)\<close>.
\<close>

definition runCmd ::
  "world \<Rightarrow> string \<Rightarrow> (cli_Context \<Rightarrow> Config) \<Rightarrow> cli_Context \<Rightarrow> outcome \<times> event list" where
  "runCmd w version LoadConfig c =
     (let ctx = SetupSignalHandler w;
          logp = prepareLogger version (cli_String c ''log-level'') (cli_Bool c ''json'');
          cfg = LoadConfig c
      in
        (case logp of
           None \<Rightarrow> (Panics, [])
         | Some log \<Rightarrow>
             (case run w ctx log cfg of
                (Returns (Some err), fr) \<Rightarrow>
                  (Exits 1,
                   fr_trace fr @ [EvLog log FatalLevel (''eks-lens agent failed: '' @ Error err)])
              | (Returns None, fr) \<Rightarrow> (Returns None, fr_trace fr)
              | (out, fr) \<Rightarrow> (out, fr_trace fr))))"

subsection \<open>Flags\<close>

text \<open>The constants of package \<^verbatim>\<open>time\<close>: a \<^verbatim>\<open>Duration\<close> is an int64 count of nanoseconds.\<close>

definition Nanosecond :: "64 word" where
  "Nanosecond = 1"

definition Microsecond :: "64 word" where
  "Microsecond = 1000 * Nanosecond"

definition Millisecond :: "64 word" where
  "Millisecond = 1000 * Microsecond"

definition Second :: "64 word" where
  "Second = 1000 * Millisecond"

definition Minute :: "64 word" where
  "Minute = 60 * Second"

definition defaultRetryInterval :: "64 word" where
  "defaultRetryInterval = 5 * Minute"

definition defaultRetryAttempts :: int where
  "defaultRetryAttempts = 10"

datatype flag_value =
    StringValue string
  | PathValue string
  | DurationValue "64 word"
  | IntValue int
  | BoolValue bool

record Flag =
  flag_Name :: string
  flag_Usage :: string
  flag_Value :: flag_value
  flag_EnvVars :: "string list"
  flag_Category :: string

text \<open>
  The flags of the \<^verbatim>\<open>run\<close> command in \<^verbatim>\<open>main\<close>. A flag declared without \<^verbatim>\<open>Value\<close> has the
  zero value of its type.
\<close>

definition run_Flags :: "Flag list" where
  "run_Flags =
     [\<lparr>flag_Name = ''node-name'',
       flag_Usage = ''Kubernetes node name (not needed if running in node)'',
       flag_Value = StringValue [],
       flag_EnvVars = [''CLUSTER_NAME''],
       flag_Category = ''Configuration''\<rparr>,
      \<lparr>flag_Name = ''kubeconfig'',
       flag_Usage = ''path to Kubernetes configuration file (not needed if running in node)'',
       flag_Value = PathValue [],
       flag_EnvVars = [''KUBECONFIG''],
       flag_Category = ''Configuration''\<rparr>,
      \<lparr>flag_Name = ''retry-interval'',
       flag_Usage = ''when the agent fails to assign the static public IP address, it will retry after this interval'',
       flag_Value = DurationValue defaultRetryInterval,
       flag_EnvVars = [''RETRY_INTERVAL''],
       flag_Category = ''Configuration''\<rparr>,
      \<lparr>flag_Name = ''retry-attempts'',
       flag_Usage = ''number of attempts to assign the static public IP address'',
       flag_Value = IntValue defaultRetryAttempts,
       flag_EnvVars = [''RETRY_ATTEMPTS''],
       flag_Category = ''Configuration''\<rparr>,
      \<lparr>flag_Name = ''log-level'',
       flag_Usage = ''set log level (debug, info(*), warning, error, fatal, panic)'',
       flag_Value = StringValue ''info'',
       flag_EnvVars = [''LOG_LEVEL''],
       flag_Category = ''Logging''\<rparr>,
      \<lparr>flag_Name = ''json'',
       flag_Usage = ''produce log in JSON format: Logstash and Splunk friendly'',
       flag_Value = BoolValue False,
       flag_EnvVars = [''LOG_JSON''],
       flag_Category = ''Logging''\<rparr>,
      \<lparr>flag_Name = ''develop-mode'',
       flag_Usage = ''enable develop mode'',
       flag_Value = BoolValue False,
       flag_EnvVars = [''DEV_MODE''],
       flag_Category = ''Development''\<rparr>]"

text \<open>
  How github.com/urfave/cli/v2 gives a flag its value: the command line first, then the
  first of the flag's environment variables that is set, then \<^verbatim>\<open>Value\<close>. A string or path
  flag takes the variable's text as it is, the empty string included; a flag of another
  type skips an empty variable and parses any other text. \<open>parse\<close> reads a string as a
  value of the type of the default and may fail.
\<close>

fun flagFromEnv :: "(string \<rightharpoonup> string) \<Rightarrow> string list \<Rightarrow> string option" where
  "flagFromEnv env [] = None"
| "flagFromEnv env (v # vs) = (case env v of Some s \<Rightarrow> Some s | None \<Rightarrow> flagFromEnv env vs)"

definition flag_resolve ::
  "(flag_value \<Rightarrow> string \<Rightarrow> flag_value option) \<Rightarrow> (string \<rightharpoonup> string) \<Rightarrow>
   (string \<rightharpoonup> string) \<Rightarrow> Flag \<Rightarrow> flag_value option" where
  "flag_resolve parse args env f =
     (case args (flag_Name f) of
        Some s \<Rightarrow> parse (flag_Value f) s
      | None \<Rightarrow>
          (case flagFromEnv env (flag_EnvVars f) of
             Some s \<Rightarrow>
               (case flag_Value f of
                  StringValue d \<Rightarrow> Some (StringValue s)
                | PathValue d \<Rightarrow> Some (PathValue s)
                | v \<Rightarrow> if s = [] then Some v else parse v s)
           | None \<Rightarrow> Some (flag_Value f)))"

definition flag_lookup ::
  "(flag_value \<Rightarrow> string \<Rightarrow> flag_value option) \<Rightarrow> (string \<rightharpoonup> string) \<Rightarrow>
   (string \<rightharpoonup> string) \<Rightarrow> string \<Rightarrow> flag_value option" where
  "flag_lookup parse args env name =
     (case find (\<lambda>f. flag_Name f = name) run_Flags of
        None \<Rightarrow> None
      | Some f \<Rightarrow> flag_resolve parse args env f)"

subsection \<open>Sample inputs\<close>

definition sample_log :: Entry where
  "sample_log =
     \<lparr>entry_Logger = \<lparr>Level = InfoLevel, Formatter = TextFormatter True, ReportCaller = True\<rparr>,
      Data = [''version'' \<mapsto> StringField ''v2'']\<rparr>"

definition sample_config :: Config where
  "sample_config =
     \<lparr>NodeName = ''node-1'', KubeConfigPath = ''/etc/kube/config'',
      RetryInterval = defaultRetryInterval, RetryAttempts = defaultRetryAttempts,
      LogLevel = ''info'', LogJSON = False, DevelopMode = False\<rparr>"

text \<open>
  A world where the file \<^verbatim>\<open>/etc/kube/config\<close> holds a kubeconfig, the file
  \<^verbatim>\<open>/etc/kube/broken\<close> holds text that is none, no other file exists, the process runs in a
  cluster, the API server answers, and a shutdown signal arrives.
\<close>

definition sample_world :: world where
  "sample_world =
     \<lparr>os_ReadFile = (\<lambda>p.
        if p = ''/etc/kube/config'' then Inr ''apiVersion: v1''
        else if p = ''/etc/kube/broken'' then Inr ''{''
        else Inl (ExtError ''no such file or directory'')),
      RESTConfigFromKubeConfig = (\<lambda>d.
        if d = ''apiVersion: v1'' then Inr (RestConfig ''from file'')
        else Inl (ExtError ''yaml: did not find expected node content'')),
      InClusterConfig = Inr (RestConfig ''in cluster''),
      NewForConfig = (\<lambda>rc. Inr (Clientset rc)),
      GetNode = (\<lambda>cs ctx. Inr \<lparr>node_Name = ''node-1''\<rparr>),
      signal_arrives = True\<rparr>"

definition sample_cli :: cli_Context where
  "sample_cli = \<lparr>cli_String = (\<lambda>name. ''info''), cli_Bool = (\<lambda>name. False)\<rparr>"

subsection \<open>Vocabulary of the properties\<close>

text \<open>The stage a wrapped error of \<^verbatim>\<open>kubeConfigFromPath\<close> names in its message.\<close>

datatype stage = ReadStage | ParseStage

fun error_stage :: "error \<Rightarrow> stage option" where
  "error_stage (errors_Wrap cause msg) =
     (if prefix ''reading kubeconfig at '' msg then Some ReadStage
      else if prefix ''building rest config from kubeconfig at '' msg then Some ParseStage
      else None)"
| "error_stage err = None"

text \<open>Folding the case of ASCII letters, to compare strings without regard to case.\<close>

definition ascii_lower :: "char \<Rightarrow> char" where
  "ascii_lower c =
     (case map_of (zip ''ABCDEFGHIJKLMNOPQRSTUVWXYZ'' ''abcdefghijklmnopqrstuvwxyz'') c of
        Some l \<Rightarrow> l
      | None \<Rightarrow> c)"

definition ascii_upper :: "char \<Rightarrow> char" where
  "ascii_upper c =
     (case map_of (zip ''abcdefghijklmnopqrstuvwxyz'' ''ABCDEFGHIJKLMNOPQRSTUVWXYZ'') c of
        Some u \<Rightarrow> u
      | None \<Rightarrow> c)"

text \<open>The six level words of the flag's usage text, each with the logrus level it names.\<close>

definition recognized_levels :: "(string \<times> logrus_Level) list" where
  "recognized_levels =
     [(''debug'', DebugLevel), (''info'', InfoLevel), (''warning'', WarnLevel),
      (''error'', ErrorLevel), (''fatal'', FatalLevel), (''panic'', PanicLevel)]"

definition logger_level :: "Entry option \<Rightarrow> logrus_Level option" where
  "logger_level e = map_option (\<lambda>x. Level (entry_Logger x)) e"

definition logger_formatter :: "Entry option \<Rightarrow> logrus_Formatter option" where
  "logger_formatter e = map_option (\<lambda>x. Formatter (entry_Logger x)) e"

text \<open>A recorded library call whose answer in the world is an error.\<close>

fun call_failed :: "world \<Rightarrow> event \<Rightarrow> bool" where
  "call_failed w (EvReadFile p) = isl (os_ReadFile w p)"
| "call_failed w (EvRESTConfigFromKubeConfig d) = isl (RESTConfigFromKubeConfig w d)"
| "call_failed w EvInClusterConfig = isl (InClusterConfig w)"
| "call_failed w (EvNewForConfig rc) = isl (NewForConfig w rc)"
| "call_failed w (EvGetNode cs ctx) = isl (GetNode w cs ctx)"
| "call_failed w e = False"

text \<open>A recorded \<^verbatim>\<open>GetNode\<close> call that returned a node.\<close>

fun node_resolved :: "world \<Rightarrow> event \<Rightarrow> bool" where
  "node_resolved w (EvGetNode cs ctx) = (\<not> isl (GetNode w cs ctx))"
| "node_resolved w e = False"

text \<open>A call to a library, as opposed to a log line, the wait and the deferred cancel.\<close>

fun is_library_call :: "event \<Rightarrow> bool" where
  "is_library_call (EvLog e l m) = False"
| "is_library_call EvWaitDone = False"
| "is_library_call EvCancel = False"
| "is_library_call ev = True"

text \<open>Some failed call of the trace is followed by another library call or by the wait.\<close>

fun call_after_failure :: "world \<Rightarrow> event list \<Rightarrow> bool" where
  "call_after_failure w [] = False"
| "call_after_failure w (ev # tr) =
     ((call_failed w ev \<and> (attempted is_library_call tr \<or> attempted is_wait tr))
      \<or> call_after_failure w tr)"

text \<open>The context \<^verbatim>\<open>run\<close> derives from its argument in its first lines.\<close>

definition run_ctx :: "go_context \<Rightarrow> Config \<Rightarrow> go_context" where
  "run_ctx c cfg =
     (if DevelopMode cfg then context_WithValue (context_WithCancel c) developModeKey True
      else context_WithCancel c)"

section \<open>Credential resolution\<close>

lemma empty_path_sentinel:
  "kubeConfigFromPath w [] = ((None, Some errEmptyPath), [])"
  by (simp add: kubeConfigFromPath_def)

lemma sentinel_is_itself: "errors_Is errEmptyPath errEmptyPath"
  by (simp add: errEmptyPath_def)

lemma read_failure:
  "kubepath \<noteq> [] \<Longrightarrow> os_ReadFile w kubepath = Inl err \<Longrightarrow>
   kubeConfigFromPath w kubepath =
     ((None, Some (errors_Wrap (External err) (''reading kubeconfig at '' @ kubepath))),
      [EvReadFile kubepath])"
  by (simp add: kubeConfigFromPath_def)

lemma parse_failure:
  "kubepath \<noteq> [] \<Longrightarrow> os_ReadFile w kubepath = Inr data \<Longrightarrow>
   RESTConfigFromKubeConfig w data = Inl err \<Longrightarrow>
   kubeConfigFromPath w kubepath =
     ((None, Some (errors_Wrap (External err)
        (''building rest config from kubeconfig at '' @ kubepath))),
      [EvReadFile kubepath, EvRESTConfigFromKubeConfig data])"
  by (simp add: kubeConfigFromPath_def)

lemma nonempty_path_shapes:
  "kubepath \<noteq> [] \<Longrightarrow>
   (\<exists>e msg. kubeConfigFromPath w kubepath =
        ((None, Some (errors_Wrap (External e) msg)), [EvReadFile kubepath]))
   \<or> (\<exists>e msg d. kubeConfigFromPath w kubepath =
        ((None, Some (errors_Wrap (External e) msg)),
         [EvReadFile kubepath, EvRESTConfigFromKubeConfig d]))
   \<or> (\<exists>k d. kubeConfigFromPath w kubepath =
        ((Some k, None), [EvReadFile kubepath, EvRESTConfigFromKubeConfig d]))"
  by (auto simp: kubeConfigFromPath_def split: sum.splits)

lemma empty_path_falls_back:
  "KubeConfigPath cfg = [] \<Longrightarrow>
   retrieveKubeConfig w log cfg =
     (case InClusterConfig w of
        Inl e \<Rightarrow>
          ((None, Some (errors_Wrap (External e) ''retrieving in node kube config'')),
           [EvInClusterConfig])
      | Inr c \<Rightarrow>
          ((Some c, None),
           [EvInClusterConfig, EvLog log DebugLevel ''using in node kube config'']))"
  by (simp add: retrieveKubeConfig_def empty_path_sentinel sentinel_is_itself
      split: sum.splits)

lemma nonempty_path_no_fallback:
  "KubeConfigPath cfg \<noteq> [] \<Longrightarrow>
   retrieveKubeConfig w log cfg =
     (case kubeConfigFromPath w (KubeConfigPath cfg) of
        ((Some k, err), tr) \<Rightarrow>
          ((Some k, None), tr @ [EvLog log DebugLevel ''using kube config from env variables''])
      | ((None, err), tr) \<Rightarrow>
          ((None, Some (errors_Wrap (the err) ''retrieving kube config from path'')), tr))"
  using nonempty_path_shapes [of "KubeConfigPath cfg" w]
  by (auto simp: retrieveKubeConfig_def errEmptyPath_def split: sum.splits)

text \<open>
  C1. Whatever the configuration and the world, \<^verbatim>\<open>retrieveKubeConfig\<close> uses exactly one of
  the two credential sources: it reads the kubeconfig file or it attempts in-cluster
  discovery, never both and never neither, and it reads the file exactly when the path is
  not empty. When the path yields a config, that config is returned and in-cluster
  discovery is not attempted; in-cluster discovery is attempted only when the path yielded
  no config (and then nothing was read or parsed).
\<close>

theorem retrieveKubeConfig_one_source:
  "(attempted is_file_read (snd (retrieveKubeConfig w log cfg))
      \<noteq> attempted is_in_cluster (snd (retrieveKubeConfig w log cfg)))
   \<and> (attempted is_file_read (snd (retrieveKubeConfig w log cfg)) \<longleftrightarrow> KubeConfigPath cfg \<noteq> [])
   \<and> (\<forall>k. fst (fst (kubeConfigFromPath w (KubeConfigPath cfg))) = Some k \<longrightarrow>
          fst (retrieveKubeConfig w log cfg) = (Some k, None)
        \<and> \<not> attempted is_in_cluster (snd (retrieveKubeConfig w log cfg)))
   \<and> (attempted is_in_cluster (snd (retrieveKubeConfig w log cfg)) \<longrightarrow>
          fst (fst (kubeConfigFromPath w (KubeConfigPath cfg))) = None
        \<and> \<not> attempted is_file_read (snd (retrieveKubeConfig w log cfg))
        \<and> \<not> attempted is_parse (snd (retrieveKubeConfig w log cfg)))"
proof (cases "KubeConfigPath cfg = []")
  case True
  then show ?thesis
    by (simp add: empty_path_falls_back empty_path_sentinel attempted_def split: sum.splits)
next
  case False
  from nonempty_path_shapes [OF False, of w] False show ?thesis
    by (auto simp: nonempty_path_no_fallback attempted_def)
qed

theorem retrieveKubeConfig_one_source_witness:
  "fst (fst (kubeConfigFromPath sample_world (KubeConfigPath sample_config)))
     = Some (RestConfig ''from file'')
   \<and> fst (retrieveKubeConfig sample_world sample_log sample_config)
     = (Some (RestConfig ''from file''), None)
   \<and> attempted is_file_read (snd (retrieveKubeConfig sample_world sample_log sample_config))
   \<and> \<not> attempted is_in_cluster (snd (retrieveKubeConfig sample_world sample_log sample_config))
   \<and> attempted is_in_cluster
       (snd (retrieveKubeConfig sample_world sample_log (sample_config\<lparr>KubeConfigPath := []\<rparr>)))
   \<and> \<not> attempted is_file_read
       (snd (retrieveKubeConfig sample_world sample_log (sample_config\<lparr>KubeConfigPath := []\<rparr>)))
   \<and> fst (retrieveKubeConfig sample_world sample_log (sample_config\<lparr>KubeConfigPath := []\<rparr>))
     = (Some (RestConfig ''in cluster''), None)"
  using retrieveKubeConfig_one_source [of sample_world sample_log sample_config]
    retrieveKubeConfig_one_source
      [of sample_world sample_log "sample_config\<lparr>KubeConfigPath := []\<rparr>"]
  by (simp add: retrieveKubeConfig_def kubeConfigFromPath_def sample_world_def
      sample_config_def attempted_def errEmptyPath_def)

text \<open>
  C2. When the kubeconfig path of the configuration is the empty string,
  \<^verbatim>\<open>kubeConfigFromPath\<close> returns the sentinel \<^verbatim>\<open>errEmptyPath\<close> without any call to the file
  system or the parser, and \<^verbatim>\<open>retrieveKubeConfig\<close> goes on to in-cluster discovery: it
  attempts it, it reads and parses no file, and its result is the answer of in-cluster
  discovery (the config, or the error wrapped as "retrieving in node kube config").
\<close>

theorem retrieveKubeConfig_empty_path:
  assumes "KubeConfigPath cfg = []"
  shows "kubeConfigFromPath w (KubeConfigPath cfg) = ((None, Some errEmptyPath), [])
    \<and> attempted is_in_cluster (snd (retrieveKubeConfig w log cfg))
    \<and> \<not> attempted is_file_read (snd (retrieveKubeConfig w log cfg))
    \<and> \<not> attempted is_parse (snd (retrieveKubeConfig w log cfg))
    \<and> fst (retrieveKubeConfig w log cfg) =
        (case InClusterConfig w of
           Inl e \<Rightarrow> (None, Some (errors_Wrap (External e) ''retrieving in node kube config''))
         | Inr c \<Rightarrow> (Some c, None))"
  using assms
  by (simp add: empty_path_falls_back empty_path_sentinel attempted_def split: sum.splits)

theorem retrieveKubeConfig_empty_path_witness:
  "KubeConfigPath (sample_config\<lparr>KubeConfigPath := []\<rparr>) = []
   \<and> attempted is_in_cluster
       (snd (retrieveKubeConfig sample_world sample_log (sample_config\<lparr>KubeConfigPath := []\<rparr>)))
   \<and> \<not> attempted is_file_read
       (snd (retrieveKubeConfig sample_world sample_log (sample_config\<lparr>KubeConfigPath := []\<rparr>)))
   \<and> \<not> attempted is_parse
       (snd (retrieveKubeConfig sample_world sample_log (sample_config\<lparr>KubeConfigPath := []\<rparr>)))
   \<and> fst (retrieveKubeConfig sample_world sample_log (sample_config\<lparr>KubeConfigPath := []\<rparr>))
     = (Some (RestConfig ''in cluster''), None)"
  using retrieveKubeConfig_empty_path
      [of "sample_config\<lparr>KubeConfigPath := []\<rparr>" sample_world sample_log]
  by (simp add: sample_world_def)

text \<open>
  C3. For a kubeconfig path that is not empty: when the file cannot be read,
  \<^verbatim>\<open>kubeConfigFromPath\<close> returns no config and the read error wrapped with "reading kubeconfig
  at" and the path, which names the read stage and not the parse stage, and the parser
  is not called; when the file is read and its content does not parse, it returns no
  config and the parse error wrapped with "building rest config from kubeconfig at" and
  the path, which names the parse stage.
\<close>

theorem kubeConfigFromPath_failing_stage:
  assumes "kubepath \<noteq> []"
  shows "(\<forall>err. os_ReadFile w kubepath = Inl err \<longrightarrow>
            fst (kubeConfigFromPath w kubepath) =
              (None, Some (errors_Wrap (External err) (''reading kubeconfig at '' @ kubepath)))
          \<and> map_option error_stage (snd (fst (kubeConfigFromPath w kubepath)))
              = Some (Some ReadStage)
          \<and> map_option error_stage (snd (fst (kubeConfigFromPath w kubepath)))
              \<noteq> Some (Some ParseStage)
          \<and> \<not> attempted is_parse (snd (kubeConfigFromPath w kubepath)))
       \<and> (\<forall>data err. os_ReadFile w kubepath = Inr data
              \<and> RESTConfigFromKubeConfig w data = Inl err \<longrightarrow>
            fst (kubeConfigFromPath w kubepath) =
              (None, Some (errors_Wrap (External err)
                 (''building rest config from kubeconfig at '' @ kubepath)))
          \<and> map_option error_stage (snd (fst (kubeConfigFromPath w kubepath)))
              = Some (Some ParseStage))"
  using assms by (auto simp: read_failure parse_failure attempted_def)

theorem kubeConfigFromPath_failing_stage_witness:
  "''/missing'' \<noteq> []
   \<and> os_ReadFile sample_world ''/missing'' = Inl (ExtError ''no such file or directory'')
   \<and> fst (kubeConfigFromPath sample_world ''/missing'') =
     (None, Some (errors_Wrap (External (ExtError ''no such file or directory''))
        ''reading kubeconfig at /missing''))
   \<and> map_option error_stage (snd (fst (kubeConfigFromPath sample_world ''/missing'')))
       = Some (Some ReadStage)
   \<and> os_ReadFile sample_world ''/etc/kube/broken'' = Inr ''{''
   \<and> RESTConfigFromKubeConfig sample_world ''{''
       = Inl (ExtError ''yaml: did not find expected node content'')
   \<and> fst (kubeConfigFromPath sample_world ''/etc/kube/broken'') =
     (None, Some (errors_Wrap (External (ExtError ''yaml: did not find expected node content''))
        ''building rest config from kubeconfig at /etc/kube/broken''))
   \<and> map_option error_stage (snd (fst (kubeConfigFromPath sample_world ''/etc/kube/broken'')))
       = Some (Some ParseStage)"
  using kubeConfigFromPath_failing_stage [of "''/missing''" sample_world]
    kubeConfigFromPath_failing_stage [of "''/etc/kube/broken''" sample_world]
  by (simp add: sample_world_def)

section \<open>The logger\<close>

lemma level_of_string:
  "logger_level (prepareLogger version level json) =
     Some (if level = ''debug'' \<or> level = ''DEBUG'' then DebugLevel
           else if level = ''info'' \<or> level = ''INFO'' then InfoLevel
           else if level = ''warning'' \<or> level = ''WARNING'' then WarnLevel
           else if level = ''error'' \<or> level = ''ERROR'' then ErrorLevel
           else if level = ''fatal'' \<or> level = ''FATAL'' then FatalLevel
           else if level = ''panic'' \<or> level = ''PANIC'' then PanicLevel
           else WarnLevel)"
  by (simp add: logger_level_def prepareLogger_def logrus_New_def SetLevel_def
      SetFormatter_def SetReportCaller_def WithFields_def Let_def)

lemma lower_words:
  "logger_level (prepareLogger version ''debug'' json) = Some DebugLevel"
  "logger_level (prepareLogger version ''info'' json) = Some InfoLevel"
  "logger_level (prepareLogger version ''warning'' json) = Some WarnLevel"
  "logger_level (prepareLogger version ''error'' json) = Some ErrorLevel"
  "logger_level (prepareLogger version ''fatal'' json) = Some FatalLevel"
  "logger_level (prepareLogger version ''panic'' json) = Some PanicLevel"
  by (simp_all add: level_of_string)

lemma upper_words:
  "logger_level (prepareLogger version ''DEBUG'' json) = Some DebugLevel"
  "logger_level (prepareLogger version ''INFO'' json) = Some InfoLevel"
  "logger_level (prepareLogger version ''WARNING'' json) = Some WarnLevel"
  "logger_level (prepareLogger version ''ERROR'' json) = Some ErrorLevel"
  "logger_level (prepareLogger version ''FATAL'' json) = Some FatalLevel"
  "logger_level (prepareLogger version ''PANIC'' json) = Some PanicLevel"
  by (simp_all add: level_of_string)

lemma lower_all:
  "list_all (\<lambda>(word, l). logger_level (prepareLogger version word json) = Some l)
     recognized_levels"
  by (simp add: recognized_levels_def lower_words)

lemma upper_all:
  "list_all (\<lambda>(word, l).
       logger_level (prepareLogger version (map ascii_upper word) json) = Some l)
     recognized_levels"
  by (simp add: recognized_levels_def ascii_upper_def upper_words)

lemma lower_spelling:
  assumes "(word, l) \<in> set recognized_levels"
  shows "logger_level (prepareLogger version word json) = Some l"
  using assms lower_all [of version json] by (auto simp: list_all_iff)

lemma upper_spelling:
  assumes "(word, l) \<in> set recognized_levels"
  shows "logger_level (prepareLogger version (map ascii_upper word) json) = Some l"
  using assms upper_all [of version json] by (auto simp: list_all_iff)

lemma other_spelling:
  assumes "level \<notin> set (map fst recognized_levels)"
    and "level \<notin> set (map (\<lambda>p. map ascii_upper (fst p)) recognized_levels)"
  shows "logger_level (prepareLogger version level json) = Some WarnLevel"
  using assms by (simp add: recognized_levels_def ascii_upper_def level_of_string)

text \<open>
  C4, as stated, fails: the string "Debug" is the word "debug" up to the case of its
  letters, and \<^verbatim>\<open>prepareLogger\<close> gives it the warning level, not the debug level.
\<close>

theorem prepareLogger_mixed_case_counterexample:
  "map ascii_lower ''Debug'' = ''debug''
   \<and> logger_level (prepareLogger ''v2'' ''Debug'' False) = Some WarnLevel
   \<and> logger_level (prepareLogger ''v2'' ''Debug'' False) \<noteq> Some DebugLevel"
  by (simp add: ascii_lower_def level_of_string)

text \<open>
  C4, amended. \<^verbatim>\<open>prepareLogger\<close> recognizes each of the six words debug, info, warning,
  error, fatal and panic in two spellings, all in lower case and all in upper case, and
  selects the level the word names; every other string, a mixed-case spelling of a
  recognized word included, results in the warning level.
\<close>

theorem prepareLogger_two_spellings:
  "(\<forall>(word, l) \<in> set recognized_levels.
      level = word \<or> level = map ascii_upper word \<longrightarrow>
      logger_level (prepareLogger version level json) = Some l)
   \<and> (level \<notin> set (map fst recognized_levels) \<and>
      level \<notin> set (map (\<lambda>p. map ascii_upper (fst p)) recognized_levels) \<longrightarrow>
      logger_level (prepareLogger version level json) = Some WarnLevel)"
  using lower_spelling upper_spelling other_spelling by blast

theorem prepareLogger_two_spellings_witness:
  "(''fatal'', FatalLevel) \<in> set recognized_levels
   \<and> ''FATAL'' = map ascii_upper ''fatal''
   \<and> logger_level (prepareLogger ''v2'' ''FATAL'' True) = Some FatalLevel
   \<and> ''Debug'' \<notin> set (map fst recognized_levels)
   \<and> ''Debug'' \<notin> set (map (\<lambda>p. map ascii_upper (fst p)) recognized_levels)
   \<and> logger_level (prepareLogger ''v2'' ''Debug'' True) = Some WarnLevel"
  using prepareLogger_two_spellings [of "''FATAL''" "''v2''" True]
    prepareLogger_two_spellings [of "''Debug''" "''v2''" True]
  by (simp add: recognized_levels_def ascii_upper_def)

text \<open>
  C9. For every level string and every value of the json flag, \<^verbatim>\<open>prepareLogger\<close> returns
  an entry that is not nil and carries the field "version" with the package's version.
  When json is true the formatter of its logger is the JSON formatter, whatever the level
  string; when json is false it is the text formatter with full timestamps. Caller
  reporting is on.
\<close>

theorem prepareLogger_total:
  "\<exists>e. prepareLogger version level json = Some e
     \<and> Data e ''version'' = Some (StringField version)
     \<and> (json \<longrightarrow> Formatter (entry_Logger e) = JSONFormatter)
     \<and> (\<not> json \<longrightarrow> Formatter (entry_Logger e) = TextFormatter True)
     \<and> ReportCaller (entry_Logger e)"
  by (simp add: prepareLogger_def logrus_New_def SetLevel_def
      SetFormatter_def SetReportCaller_def WithFields_def Let_def)

theorem prepareLogger_total_witness:
  "logger_formatter (prepareLogger ''v2'' ''no such level'' True) = Some JSONFormatter
   \<and> logger_formatter (prepareLogger ''v2'' ''info'' False) = Some (TextFormatter True)
   \<and> map_option (\<lambda>e. Data e ''version'') (prepareLogger ''v2'' ''no such level'' True)
       = Some (Some (StringField ''v2''))"
  using prepareLogger_total [of "''v2''" "''no such level''" True]
    prepareLogger_total [of "''v2''" "''info''" False]
  by (auto simp: logger_formatter_def)

section \<open>Flag defaults\<close>

text \<open>
  C7. When neither the flag \<^verbatim>\<open>retry-interval\<close> is on the command line nor the variable
  \<^verbatim>\<open>RETRY_INTERVAL\<close> is in the environment, the flag has the value
  \<^verbatim>\<open>defaultRetryInterval\<close>, which is five minutes (300 000 000 000 nanoseconds); when
  neither \<^verbatim>\<open>retry-attempts\<close> nor \<^verbatim>\<open>RETRY_ATTEMPTS\<close> is given, the flag has the value
  \<^verbatim>\<open>defaultRetryAttempts\<close>, which is 10.
\<close>

theorem retry_defaults:
  "(args ''retry-interval'' = None \<and> env ''RETRY_INTERVAL'' = None \<longrightarrow>
      flag_lookup parse args env ''retry-interval'' = Some (DurationValue defaultRetryInterval))
   \<and> defaultRetryInterval = 5 * Minute
   \<and> sint defaultRetryInterval = 5 * 60 * 1000000000
   \<and> (args ''retry-attempts'' = None \<and> env ''RETRY_ATTEMPTS'' = None \<longrightarrow>
      flag_lookup parse args env ''retry-attempts'' = Some (IntValue defaultRetryAttempts))
   \<and> defaultRetryAttempts = 10"
  by (simp add: flag_lookup_def flag_resolve_def run_Flags_def defaultRetryInterval_def
      defaultRetryAttempts_def Minute_def Second_def Millisecond_def Microsecond_def
      Nanosecond_def)

theorem retry_defaults_witness:
  "Map.empty ''retry-interval'' = (None :: string option)
   \<and> [''KUBECONFIG'' \<mapsto> ''/etc/kube/config''] ''RETRY_INTERVAL'' = None
   \<and> flag_lookup (\<lambda>d s. None) Map.empty [''KUBECONFIG'' \<mapsto> ''/etc/kube/config'']
        ''retry-interval''
     = Some (DurationValue 300000000000)
   \<and> flag_lookup (\<lambda>d s. None) Map.empty [''KUBECONFIG'' \<mapsto> ''/etc/kube/config'']
        ''retry-attempts''
     = Some (IntValue 10)"
  using retry_defaults [of Map.empty "[''KUBECONFIG'' \<mapsto> ''/etc/kube/config'']" "\<lambda>d s. None"]
  by (simp add: defaultRetryInterval_def defaultRetryAttempts_def Minute_def Second_def
      Millisecond_def Microsecond_def Nanosecond_def)

section \<open>The run\<close>

lemma attempted_mono:
  "(\<And>ev. P ev \<Longrightarrow> Q ev) \<Longrightarrow> attempted P tr \<Longrightarrow> attempted Q tr"
  by (auto simp: attempted_def list_ex_iff)

lemma node_resolved_is_get_node: "node_resolved w ev \<Longrightarrow> is_get_node ev"
  by (cases ev) auto

lemma no_get_node_no_resolved:
  "\<not> attempted is_get_node tr \<Longrightarrow> \<not> attempted (node_resolved w) tr"
  using attempted_mono [of "node_resolved w" is_get_node tr] node_resolved_is_get_node
  by blast

text \<open>
  \<^verbatim>\<open>retrieveKubeConfig\<close> returns an error and no config, or a config and no error; it
  returns an error exactly when one of its library calls failed.
\<close>

lemma retrieveKubeConfig_shape:
  "(\<exists>e tr. retrieveKubeConfig w log cfg = ((None, Some e), tr)
       \<and> attempted (call_failed w) tr \<and> \<not> attempted is_wait tr
       \<and> \<not> attempted is_new_client tr \<and> \<not> attempted is_get_node tr
       \<and> call_count is_file_read tr \<le> 1 \<and> call_count is_parse tr \<le> 1
       \<and> call_count is_in_cluster tr \<le> 1)
   \<or> (\<exists>rc tr. retrieveKubeConfig w log cfg = ((Some rc, None), tr)
       \<and> \<not> attempted (call_failed w) tr \<and> \<not> attempted is_wait tr
       \<and> \<not> attempted is_new_client tr \<and> \<not> attempted is_get_node tr
       \<and> call_count is_file_read tr \<le> 1 \<and> call_count is_parse tr \<le> 1
       \<and> call_count is_in_cluster tr \<le> 1)"
  by (auto simp: retrieveKubeConfig_def kubeConfigFromPath_def errEmptyPath_def attempted_def
      call_count_def split: sum.splits)

lemma run_frame_ctx: "fr_ctx (snd (run w c log cfg)) = run_ctx c cfg"
  by (auto simp: run_def run_ctx_def Let_def split: prod.splits option.splits sum.splits)

lemma run_frame_cfg: "fr_cfg (snd (run w c log cfg)) = cfg"
  by (auto simp: run_def Let_def split: prod.splits option.splits sum.splits)

lemma run_ctx_cancelled: "ctx_cancelled (run_ctx c cfg) = ctx_cancelled c"
  by (simp add: run_ctx_def context_WithCancel_def context_WithValue_def)

lemma run_ctx_values:
  "ctx_values (run_ctx c cfg) =
     (if DevelopMode cfg then [(developModeKey, True)] else []) @ ctx_values c"
  by (simp add: run_ctx_def context_WithCancel_def context_WithValue_def)

lemma run_retrieve_error:
  "retrieveKubeConfig w log cfg = ((k, Some e), tr) \<Longrightarrow>
   run w c log cfg =
     (Returns (Some (errors_Wrap e ''retrieving kube config'')),
      \<lparr>fr_ctx = run_ctx c cfg, fr_cfg = cfg,
       fr_trace = EvLog (WithField log ''develop-mode'' (BoolField (DevelopMode cfg)))
         InfoLevel ''kubeip agent started'' # tr @ [EvCancel]\<rparr>)"
  by (simp add: run_def run_ctx_def Let_def split: option.splits)

lemma run_client_error:
  "retrieveKubeConfig w log cfg = ((Some rc, None), tr) \<Longrightarrow> NewForConfig w rc = Inl e \<Longrightarrow>
   run w c log cfg =
     (Returns (Some (errors_Wrap (External e) ''initializing kubernetes client'')),
      \<lparr>fr_ctx = run_ctx c cfg, fr_cfg = cfg,
       fr_trace = EvLog (WithField log ''develop-mode'' (BoolField (DevelopMode cfg)))
         InfoLevel ''kubeip agent started'' # tr @ [EvNewForConfig rc, EvCancel]\<rparr>)"
  by (simp add: run_def run_ctx_def Let_def split: option.splits)

lemma run_node_error:
  "retrieveKubeConfig w log cfg = ((Some rc, None), tr) \<Longrightarrow> NewForConfig w rc = Inr cs \<Longrightarrow>
   GetNode w cs (run_ctx c cfg) = Inl e \<Longrightarrow>
   run w c log cfg =
     (Returns (Some (errors_Wrap (External e) ''getting node'')),
      \<lparr>fr_ctx = run_ctx c cfg, fr_cfg = cfg,
       fr_trace = EvLog (WithField log ''develop-mode'' (BoolField (DevelopMode cfg)))
         InfoLevel ''kubeip agent started'' #
         tr @ [EvNewForConfig rc, EvGetNode cs (run_ctx c cfg), EvCancel]\<rparr>)"
  by (simp add: run_def run_ctx_def Let_def split: option.splits)

lemma run_success:
  "retrieveKubeConfig w log cfg = ((Some rc, None), tr) \<Longrightarrow> NewForConfig w rc = Inr cs \<Longrightarrow>
   GetNode w cs (run_ctx c cfg) = Inr n \<Longrightarrow>
   run w c log cfg =
     (if ctx_cancelled c
      then (Returns None,
        \<lparr>fr_ctx = run_ctx c cfg, fr_cfg = cfg,
         fr_trace = EvLog (WithField log ''develop-mode'' (BoolField (DevelopMode cfg)))
           InfoLevel ''kubeip agent started'' #
           tr @ [EvNewForConfig rc, EvGetNode cs (run_ctx c cfg),
             EvLog log DebugLevel (''node name: '' @ node_Name n), EvWaitDone,
             EvLog log InfoLevel ''kubeip agent stopped'', EvCancel]\<rparr>)
      else (Blocks,
        \<lparr>fr_ctx = run_ctx c cfg, fr_cfg = cfg,
         fr_trace = EvLog (WithField log ''develop-mode'' (BoolField (DevelopMode cfg)))
           InfoLevel ''kubeip agent started'' #
           tr @ [EvNewForConfig rc, EvGetNode cs (run_ctx c cfg),
             EvLog log DebugLevel (''node name: '' @ node_Name n), EvWaitDone]\<rparr>))"
  using run_ctx_cancelled [of c cfg]
  by (simp add: run_def run_ctx_def Let_def split: option.splits)

text \<open>The four ways a run can go.\<close>

lemma run_cases:
  obtains
    (retrieve_failed) e tr where
      "retrieveKubeConfig w log cfg = ((None, Some e), tr)"
      "run w c log cfg =
         (Returns (Some (errors_Wrap e ''retrieving kube config'')),
          \<lparr>fr_ctx = run_ctx c cfg, fr_cfg = cfg,
           fr_trace = EvLog (WithField log ''develop-mode'' (BoolField (DevelopMode cfg)))
             InfoLevel ''kubeip agent started'' # tr @ [EvCancel]\<rparr>)"
      "attempted (call_failed w) tr" "\<not> attempted is_wait tr"
      "\<not> attempted is_new_client tr" "\<not> attempted is_get_node tr"
      "call_count is_file_read tr \<le> 1" "call_count is_parse tr \<le> 1"
      "call_count is_in_cluster tr \<le> 1"
  | (client_failed) rc tr e where
      "retrieveKubeConfig w log cfg = ((Some rc, None), tr)"
      "NewForConfig w rc = Inl e"
      "run w c log cfg =
         (Returns (Some (errors_Wrap (External e) ''initializing kubernetes client'')),
          \<lparr>fr_ctx = run_ctx c cfg, fr_cfg = cfg,
           fr_trace = EvLog (WithField log ''develop-mode'' (BoolField (DevelopMode cfg)))
             InfoLevel ''kubeip agent started'' # tr @ [EvNewForConfig rc, EvCancel]\<rparr>)"
      "\<not> attempted (call_failed w) tr" "\<not> attempted is_wait tr"
      "\<not> attempted is_new_client tr" "\<not> attempted is_get_node tr"
      "call_count is_file_read tr \<le> 1" "call_count is_parse tr \<le> 1"
      "call_count is_in_cluster tr \<le> 1"
  | (node_failed) rc tr cs e where
      "retrieveKubeConfig w log cfg = ((Some rc, None), tr)"
      "NewForConfig w rc = Inr cs" "GetNode w cs (run_ctx c cfg) = Inl e"
      "run w c log cfg =
         (Returns (Some (errors_Wrap (External e) ''getting node'')),
          \<lparr>fr_ctx = run_ctx c cfg, fr_cfg = cfg,
           fr_trace = EvLog (WithField log ''develop-mode'' (BoolField (DevelopMode cfg)))
             InfoLevel ''kubeip agent started'' #
             tr @ [EvNewForConfig rc, EvGetNode cs (run_ctx c cfg), EvCancel]\<rparr>)"
      "\<not> attempted (call_failed w) tr" "\<not> attempted is_wait tr"
      "\<not> attempted is_new_client tr" "\<not> attempted is_get_node tr"
      "call_count is_file_read tr \<le> 1" "call_count is_parse tr \<le> 1"
      "call_count is_in_cluster tr \<le> 1"
  | (resolved) rc tr cs n where
      "retrieveKubeConfig w log cfg = ((Some rc, None), tr)"
      "NewForConfig w rc = Inr cs" "GetNode w cs (run_ctx c cfg) = Inr n"
      "run w c log cfg =
         (if ctx_cancelled c
          then (Returns None,
            \<lparr>fr_ctx = run_ctx c cfg, fr_cfg = cfg,
             fr_trace = EvLog (WithField log ''develop-mode'' (BoolField (DevelopMode cfg)))
               InfoLevel ''kubeip agent started'' #
               tr @ [EvNewForConfig rc, EvGetNode cs (run_ctx c cfg),
                 EvLog log DebugLevel (''node name: '' @ node_Name n), EvWaitDone,
                 EvLog log InfoLevel ''kubeip agent stopped'', EvCancel]\<rparr>)
          else (Blocks,
            \<lparr>fr_ctx = run_ctx c cfg, fr_cfg = cfg,
             fr_trace = EvLog (WithField log ''develop-mode'' (BoolField (DevelopMode cfg)))
               InfoLevel ''kubeip agent started'' #
               tr @ [EvNewForConfig rc, EvGetNode cs (run_ctx c cfg),
                 EvLog log DebugLevel (''node name: '' @ node_Name n), EvWaitDone]\<rparr>))"
      "\<not> attempted (call_failed w) tr" "\<not> attempted is_wait tr"
      "\<not> attempted is_new_client tr" "\<not> attempted is_get_node tr"
      "call_count is_file_read tr \<le> 1" "call_count is_parse tr \<le> 1"
      "call_count is_in_cluster tr \<le> 1"
proof -
  from retrieveKubeConfig_shape [of w log cfg]
  consider
    (err) e tr where "retrieveKubeConfig w log cfg = ((None, Some e), tr)"
      "attempted (call_failed w) tr" "\<not> attempted is_wait tr"
      "\<not> attempted is_new_client tr" "\<not> attempted is_get_node tr"
      "call_count is_file_read tr \<le> 1" "call_count is_parse tr \<le> 1"
      "call_count is_in_cluster tr \<le> 1"
  | (ok) rc tr where "retrieveKubeConfig w log cfg = ((Some rc, None), tr)"
      "\<not> attempted (call_failed w) tr" "\<not> attempted is_wait tr"
      "\<not> attempted is_new_client tr" "\<not> attempted is_get_node tr"
      "call_count is_file_read tr \<le> 1" "call_count is_parse tr \<le> 1"
      "call_count is_in_cluster tr \<le> 1"
    by blast
  then show thesis
  proof cases
    case err
    with run_retrieve_error [OF err(1), of c] retrieve_failed show thesis by blast
  next
    case ok
    show thesis
    proof (cases "NewForConfig w rc")
      case (Inl e)
      with run_client_error [OF ok(1) Inl, of c] ok client_failed show thesis by blast
    next
      case (Inr cs)
      show thesis
      proof (cases "GetNode w cs (run_ctx c cfg)")
        case (Inl e)
        with run_node_error [OF ok(1) Inr Inl] ok Inr node_failed show thesis by blast
      next
        case inr: (Inr n)
        with run_success [OF ok(1) Inr inr] ok Inr resolved show thesis by blast
      qed
    qed
  qed
qed

lemma run_failed_call_returns_error:
  "attempted (call_failed w) (fr_trace (snd (run w c log cfg))) \<Longrightarrow>
   (\<exists>e msg. fst (run w c log cfg) = Returns (Some (errors_Wrap e msg)))
   \<and> \<not> attempted is_wait (fr_trace (snd (run w c log cfg)))"
  by (cases rule: run_cases [of w log cfg c]) (auto simp: attempted_def split: if_splits)

lemma run_error_never_waits:
  "fst (run w c log cfg) = Returns (Some e) \<Longrightarrow>
   \<not> attempted is_wait (fr_trace (snd (run w c log cfg)))"
  by (cases rule: run_cases [of w log cfg c]) (auto simp: attempted_def split: if_splits)

lemma run_wait_after_bootstrap:
  "attempted is_wait (fr_trace (snd (run w c log cfg))) \<Longrightarrow>
   \<exists>rc tr cs n. retrieveKubeConfig w log cfg = ((Some rc, None), tr)
     \<and> NewForConfig w rc = Inr cs \<and> GetNode w cs (run_ctx c cfg) = Inr n"
  by (cases rule: run_cases [of w log cfg c]) (auto simp: attempted_def split: if_splits)

lemma run_calls_once:
  "call_count is_file_read (fr_trace (snd (run w c log cfg))) \<le> 1
   \<and> call_count is_parse (fr_trace (snd (run w c log cfg))) \<le> 1
   \<and> call_count is_in_cluster (fr_trace (snd (run w c log cfg))) \<le> 1
   \<and> call_count is_new_client (fr_trace (snd (run w c log cfg))) \<le> 1
   \<and> call_count is_get_node (fr_trace (snd (run w c log cfg))) \<le> 1"
  by (cases rule: run_cases [of w log cfg c])
    (auto simp: attempted_def call_count_def list_ex_iff filter_empty_conv split: if_splits)

lemma run_get_node_ctx:
  "EvGetNode cs ctx \<in> set (fr_trace (snd (run w c log cfg))) \<Longrightarrow> ctx = run_ctx c cfg"
  by (cases rule: run_cases [of w log cfg c])
    (auto simp: attempted_def list_ex_iff split: if_splits)

text \<open>\<^verbatim>\<open>run\<close> never hands a nil config to \<^verbatim>\<open>kubernetes.NewForConfig\<close>.\<close>

lemma run_never_panics: "fst (run w c log cfg) \<noteq> Panics"
  by (cases rule: run_cases [of w log cfg c]) (auto split: if_splits)

lemma run_stops_at_failure:
  "\<not> call_after_failure w (fr_trace (snd (run w c log cfg)))"
  by (auto simp: run_def retrieveKubeConfig_def kubeConfigFromPath_def Let_def attempted_def
      errEmptyPath_def split: sum.splits option.splits)

lemma retrieve_read_failure:
  "KubeConfigPath cfg \<noteq> [] \<Longrightarrow> os_ReadFile w (KubeConfigPath cfg) = Inl x \<Longrightarrow>
   retrieveKubeConfig w log cfg =
     ((None, Some (errors_Wrap
         (errors_Wrap (External x) (''reading kubeconfig at '' @ KubeConfigPath cfg))
         ''retrieving kube config from path'')),
      [EvReadFile (KubeConfigPath cfg)])"
  by (simp add: retrieveKubeConfig_def read_failure errEmptyPath_def)

lemma retrieve_parse_failure:
  "KubeConfigPath cfg \<noteq> [] \<Longrightarrow> os_ReadFile w (KubeConfigPath cfg) = Inr d \<Longrightarrow>
   RESTConfigFromKubeConfig w d = Inl x \<Longrightarrow>
   retrieveKubeConfig w log cfg =
     ((None, Some (errors_Wrap
         (errors_Wrap (External x)
            (''building rest config from kubeconfig at '' @ KubeConfigPath cfg))
         ''retrieving kube config from path'')),
      [EvReadFile (KubeConfigPath cfg), EvRESTConfigFromKubeConfig d])"
  by (simp add: retrieveKubeConfig_def parse_failure errEmptyPath_def)

lemma retrieve_in_cluster_failure:
  "KubeConfigPath cfg = [] \<Longrightarrow> InClusterConfig w = Inl x \<Longrightarrow>
   retrieveKubeConfig w log cfg =
     ((None, Some (errors_Wrap (External x) ''retrieving in node kube config'')),
      [EvInClusterConfig])"
  by (simp add: empty_path_falls_back)

lemma retrieve_in_cluster_success:
  "KubeConfigPath cfg = [] \<Longrightarrow> InClusterConfig w = Inr rc \<Longrightarrow>
   retrieveKubeConfig w log cfg =
     ((Some rc, None), [EvInClusterConfig, EvLog log DebugLevel ''using in node kube config''])"
  by (simp add: empty_path_falls_back)

lemma run_failed_call_exact:
  "attempted (call_failed w) (fr_trace (snd (run w c log cfg))) \<Longrightarrow>
   (\<exists>e tr. retrieveKubeConfig w log cfg = ((None, Some e), tr)
      \<and> fst (run w c log cfg) = Returns (Some (errors_Wrap e ''retrieving kube config'')))
   \<or> (\<exists>rc tr e. retrieveKubeConfig w log cfg = ((Some rc, None), tr)
      \<and> NewForConfig w rc = Inl e
      \<and> fst (run w c log cfg) =
          Returns (Some (errors_Wrap (External e) ''initializing kubernetes client'')))
   \<or> (\<exists>rc tr cs e. retrieveKubeConfig w log cfg = ((Some rc, None), tr)
      \<and> NewForConfig w rc = Inr cs \<and> GetNode w cs (run_ctx c cfg) = Inl e
      \<and> fst (run w c log cfg) = Returns (Some (errors_Wrap (External e) ''getting node'')))"
  by (cases rule: run_cases [of w log cfg c]) (auto simp: attempted_def split: if_splits)

lemma run_retrieve_error_no_wait:
  "retrieveKubeConfig w log cfg = ((k, Some e), tr) \<Longrightarrow>
   fst (run w c log cfg) = Returns (Some (errors_Wrap e ''retrieving kube config''))
   \<and> \<not> attempted is_wait (fr_trace (snd (run w c log cfg)))"
  using run_retrieve_error [of w log cfg k e tr c]
    run_error_never_waits [of w c log cfg "errors_Wrap e ''retrieving kube config''"]
  by simp

lemma run_client_error_no_wait:
  "retrieveKubeConfig w log cfg = ((Some rc, None), tr) \<Longrightarrow> NewForConfig w rc = Inl e \<Longrightarrow>
   fst (run w c log cfg) =
     Returns (Some (errors_Wrap (External e) ''initializing kubernetes client''))
   \<and> \<not> attempted is_wait (fr_trace (snd (run w c log cfg)))"
  using run_client_error [of w log cfg rc tr e c]
    run_error_never_waits [of w c log cfg
      "errors_Wrap (External e) ''initializing kubernetes client''"]
  by simp

lemma run_node_error_no_wait:
  "retrieveKubeConfig w log cfg = ((Some rc, None), tr) \<Longrightarrow> NewForConfig w rc = Inr cs \<Longrightarrow>
   GetNode w cs (run_ctx c cfg) = Inl e \<Longrightarrow>
   fst (run w c log cfg) = Returns (Some (errors_Wrap (External e) ''getting node''))
   \<and> \<not> attempted is_wait (fr_trace (snd (run w c log cfg)))"
  using run_node_error [of w log cfg rc tr cs c e]
    run_error_never_waits [of w c log cfg "errors_Wrap (External e) ''getting node''"]
  by simp

lemma runCmd_fatal:
  "prepareLogger version (cli_String cc ''log-level'') (cli_Bool cc ''json'') = Some lg \<Longrightarrow>
   run w (SetupSignalHandler w) lg (LoadConfig cc) = (Returns (Some err), fr) \<Longrightarrow>
   runCmd w version LoadConfig cc =
     (Exits 1, fr_trace fr @ [EvLog lg FatalLevel (''eks-lens agent failed: '' @ Error err)])"
  by (simp add: runCmd_def Let_def)

text \<open>Evaluating the run in the sample world and in three worlds where one step fails.\<close>

lemma sample_retrieve:
  "retrieveKubeConfig sample_world lg sample_config =
     ((Some (RestConfig ''from file''), None),
      [EvReadFile ''/etc/kube/config'', EvRESTConfigFromKubeConfig ''apiVersion: v1'',
       EvLog lg DebugLevel ''using kube config from env variables''])"
  by (simp add: retrieveKubeConfig_def kubeConfigFromPath_def sample_world_def
      sample_config_def)

lemma sample_retrieve_missing:
  "retrieveKubeConfig sample_world lg (sample_config\<lparr>KubeConfigPath := ''/missing''\<rparr>) =
     ((None, Some (errors_Wrap
         (errors_Wrap (External (ExtError ''no such file or directory''))
            ''reading kubeconfig at /missing'')
         ''retrieving kube config from path'')),
      [EvReadFile ''/missing''])"
  by (simp add: retrieveKubeConfig_def kubeConfigFromPath_def sample_world_def
      sample_config_def errEmptyPath_def)

lemma sample_retrieve_no_client:
  "retrieveKubeConfig (sample_world\<lparr>NewForConfig := f\<rparr>) lg sample_config =
     ((Some (RestConfig ''from file''), None),
      [EvReadFile ''/etc/kube/config'', EvRESTConfigFromKubeConfig ''apiVersion: v1'',
       EvLog lg DebugLevel ''using kube config from env variables''])"
  by (simp add: retrieveKubeConfig_def kubeConfigFromPath_def sample_world_def
      sample_config_def)

lemma sample_retrieve_no_node:
  "retrieveKubeConfig (sample_world\<lparr>GetNode := g\<rparr>) lg sample_config =
     ((Some (RestConfig ''from file''), None),
      [EvReadFile ''/etc/kube/config'', EvRESTConfigFromKubeConfig ''apiVersion: v1'',
       EvLog lg DebugLevel ''using kube config from env variables''])"
  by (simp add: retrieveKubeConfig_def kubeConfigFromPath_def sample_world_def
      sample_config_def)

lemma sample_run:
  "run sample_world (SetupSignalHandler sample_world) lg sample_config =
     (Returns None,
      \<lparr>fr_ctx = run_ctx (SetupSignalHandler sample_world) sample_config,
       fr_cfg = sample_config,
       fr_trace =
         [EvLog (WithField lg ''develop-mode'' (BoolField False)) InfoLevel
            ''kubeip agent started'',
          EvReadFile ''/etc/kube/config'', EvRESTConfigFromKubeConfig ''apiVersion: v1'',
          EvLog lg DebugLevel ''using kube config from env variables'',
          EvNewForConfig (RestConfig ''from file''),
          EvGetNode (Clientset (RestConfig ''from file''))
            (run_ctx (SetupSignalHandler sample_world) sample_config),
          EvLog lg DebugLevel ''node name: node-1'', EvWaitDone,
          EvLog lg InfoLevel ''kubeip agent stopped'', EvCancel]\<rparr>)"
proof -
  have "NewForConfig sample_world (RestConfig ''from file'')
          = Inr (Clientset (RestConfig ''from file''))"
    by (simp add: sample_world_def)
  moreover have "GetNode sample_world (Clientset (RestConfig ''from file''))
      (run_ctx (SetupSignalHandler sample_world) sample_config) = Inr \<lparr>node_Name = ''node-1''\<rparr>"
    by (simp add: sample_world_def)
  moreover have "ctx_cancelled (SetupSignalHandler sample_world)"
    by (simp add: SetupSignalHandler_def sample_world_def)
  moreover have "\<not> DevelopMode sample_config"
    by (simp add: sample_config_def)
  ultimately show ?thesis
    using run_success [OF sample_retrieve [where lg = lg],
        where cs = "Clientset (RestConfig ''from file'')"
        and c = "SetupSignalHandler sample_world" and n = "\<lparr>node_Name = ''node-1''\<rparr>"]
    by simp
qed

lemma sample_run_missing:
  "fst (run sample_world c lg (sample_config\<lparr>KubeConfigPath := ''/missing''\<rparr>)) =
     Returns (Some (errors_Wrap (errors_Wrap
         (errors_Wrap (External (ExtError ''no such file or directory''))
            ''reading kubeconfig at /missing'')
         ''retrieving kube config from path'') ''retrieving kube config''))"
  "fr_trace (snd (run sample_world c lg (sample_config\<lparr>KubeConfigPath := ''/missing''\<rparr>))) =
     [EvLog (WithField lg ''develop-mode'' (BoolField False)) InfoLevel
        ''kubeip agent started'', EvReadFile ''/missing'', EvCancel]"
  using run_retrieve_error [OF sample_retrieve_missing [where lg = lg], where c = c]
  by (simp_all add: sample_config_def)

lemma sample_run_no_client:
  "fst (run (sample_world\<lparr>NewForConfig := (\<lambda>rc. Inl (ExtError ''invalid host''))\<rparr>)
          c lg sample_config) =
     Returns (Some (errors_Wrap (External (ExtError ''invalid host''))
       ''initializing kubernetes client''))"
  "fr_trace (snd (run (sample_world\<lparr>NewForConfig := (\<lambda>rc. Inl (ExtError ''invalid host''))\<rparr>)
          c lg sample_config)) =
     [EvLog (WithField lg ''develop-mode'' (BoolField False)) InfoLevel
        ''kubeip agent started'',
      EvReadFile ''/etc/kube/config'', EvRESTConfigFromKubeConfig ''apiVersion: v1'',
      EvLog lg DebugLevel ''using kube config from env variables'',
      EvNewForConfig (RestConfig ''from file''), EvCancel]"
proof -
  have failing: "NewForConfig
      (sample_world\<lparr>NewForConfig := (\<lambda>rc. Inl (ExtError ''invalid host''))\<rparr>)
      (RestConfig ''from file'') = Inl (ExtError ''invalid host'')"
    by simp
  have off: "\<not> DevelopMode sample_config"
    by (simp add: sample_config_def)
  from run_client_error [OF sample_retrieve_no_client [where lg = lg] failing, where c = c] off
  show "fst (run (sample_world\<lparr>NewForConfig := (\<lambda>rc. Inl (ExtError ''invalid host''))\<rparr>)
          c lg sample_config) =
     Returns (Some (errors_Wrap (External (ExtError ''invalid host''))
       ''initializing kubernetes client''))"
    and "fr_trace (snd (run (sample_world\<lparr>NewForConfig := (\<lambda>rc. Inl (ExtError ''invalid host''))\<rparr>)
          c lg sample_config)) =
     [EvLog (WithField lg ''develop-mode'' (BoolField False)) InfoLevel
        ''kubeip agent started'',
      EvReadFile ''/etc/kube/config'', EvRESTConfigFromKubeConfig ''apiVersion: v1'',
      EvLog lg DebugLevel ''using kube config from env variables'',
      EvNewForConfig (RestConfig ''from file''), EvCancel]"
    by simp_all
qed

lemma sample_run_no_node:
  "fst (run (sample_world\<lparr>GetNode := (\<lambda>cs ctx. Inl (ExtError ''node not found''))\<rparr>)
          c lg sample_config) =
     Returns (Some (errors_Wrap (External (ExtError ''node not found'')) ''getting node''))"
  "fr_trace (snd (run (sample_world\<lparr>GetNode := (\<lambda>cs ctx. Inl (ExtError ''node not found''))\<rparr>)
          c lg sample_config)) =
     [EvLog (WithField lg ''develop-mode'' (BoolField False)) InfoLevel
        ''kubeip agent started'',
      EvReadFile ''/etc/kube/config'', EvRESTConfigFromKubeConfig ''apiVersion: v1'',
      EvLog lg DebugLevel ''using kube config from env variables'',
      EvNewForConfig (RestConfig ''from file''),
      EvGetNode (Clientset (RestConfig ''from file'')) (run_ctx c sample_config), EvCancel]"
proof -
  have client: "NewForConfig
      (sample_world\<lparr>GetNode := (\<lambda>cs ctx. Inl (ExtError ''node not found''))\<rparr>)
      (RestConfig ''from file'') = Inr (Clientset (RestConfig ''from file''))"
    by (simp add: sample_world_def)
  have failing: "GetNode
      (sample_world\<lparr>GetNode := (\<lambda>cs ctx. Inl (ExtError ''node not found''))\<rparr>)
      (Clientset (RestConfig ''from file'')) (run_ctx c sample_config)
        = Inl (ExtError ''node not found'')"
    by simp
  have off: "\<not> DevelopMode sample_config"
    by (simp add: sample_config_def)
  from run_node_error [OF sample_retrieve_no_node [where lg = lg] client failing] off
  show "fst (run (sample_world\<lparr>GetNode := (\<lambda>cs ctx. Inl (ExtError ''node not found''))\<rparr>)
          c lg sample_config) =
     Returns (Some (errors_Wrap (External (ExtError ''node not found'')) ''getting node''))"
    and "fr_trace (snd (run (sample_world\<lparr>GetNode := (\<lambda>cs ctx. Inl (ExtError ''node not found''))\<rparr>)
          c lg sample_config)) =
     [EvLog (WithField lg ''develop-mode'' (BoolField False)) InfoLevel
        ''kubeip agent started'',
      EvReadFile ''/etc/kube/config'', EvRESTConfigFromKubeConfig ''apiVersion: v1'',
      EvLog lg DebugLevel ''using kube config from env variables'',
      EvNewForConfig (RestConfig ''from file''),
      EvGetNode (Clientset (RestConfig ''from file'')) (run_ctx c sample_config), EvCancel]"
    by simp_all
qed

lemma sample_logger:
  "prepareLogger ''v2'' (cli_String sample_cli ''log-level'') (cli_Bool sample_cli ''json'')
     = Some sample_log"
  by (simp add: prepareLogger_def sample_cli_def sample_log_def logrus_New_def SetLevel_def
      SetFormatter_def SetReportCaller_def WithFields_def Let_def)

lemma sample_runCmd_missing:
  "runCmd sample_world ''v2'' (\<lambda>cc. sample_config\<lparr>KubeConfigPath := ''/missing''\<rparr>) sample_cli =
     (Exits 1,
      [EvLog (WithField sample_log ''develop-mode'' (BoolField False)) InfoLevel
         ''kubeip agent started'',
       EvReadFile ''/missing'', EvCancel,
       EvLog sample_log FatalLevel
         ''eks-lens agent failed: retrieving kube config: retrieving kube config from path: reading kubeconfig at /missing: no such file or directory''])"
proof -
  have "run sample_world (SetupSignalHandler sample_world) sample_log
          (sample_config\<lparr>KubeConfigPath := ''/missing''\<rparr>) =
        (Returns (Some (errors_Wrap (errors_Wrap
           (errors_Wrap (External (ExtError ''no such file or directory''))
              ''reading kubeconfig at /missing'')
           ''retrieving kube config from path'') ''retrieving kube config'')),
         snd (run sample_world (SetupSignalHandler sample_world) sample_log
          (sample_config\<lparr>KubeConfigPath := ''/missing''\<rparr>)))"
    using sample_run_missing(1) [of "SetupSignalHandler sample_world" sample_log]
    by (simp add: prod_eq_iff)
  from runCmd_fatal [OF sample_logger this] show ?thesis
    by (simp add: sample_run_missing(2))
qed

text \<open>
  C5. In every run in which node resolution succeeds (the run made a \<^verbatim>\<open>GetNode\<close> call
  that returned a node) and whose context is cancelled by a shutdown signal, \<^verbatim>\<open>run\<close>
  returns \<^verbatim>\<open>nil\<close>: it reached the wait on \<^verbatim>\<open>ctx.Done()\<close>, came back from it and logged that
  the agent stopped.
\<close>

theorem run_returns_nil_after_signal:
  assumes "attempted (node_resolved w) (fr_trace (snd (run w c log cfg)))"
    and "ctx_cancelled c"
  shows "fst (run w c log cfg) = Returns None
    \<and> attempted is_wait (fr_trace (snd (run w c log cfg)))
    \<and> EvLog log InfoLevel ''kubeip agent stopped'' \<in> set (fr_trace (snd (run w c log cfg)))"
proof (cases rule: run_cases [of w log cfg c])
  case (retrieve_failed e tr)
  from no_get_node_no_resolved [OF retrieve_failed(6), of w] assms(1) retrieve_failed(2)
  show ?thesis by (simp add: attempted_def)
next
  case (client_failed rc tr e)
  from no_get_node_no_resolved [OF client_failed(7), of w] assms(1) client_failed(3)
  show ?thesis by (simp add: attempted_def)
next
  case (node_failed rc tr cs e)
  from no_get_node_no_resolved [OF node_failed(8), of w] assms(1) node_failed(3,4)
  show ?thesis by (simp add: attempted_def)
next
  case (resolved rc tr cs n)
  with assms(2) show ?thesis by (simp add: attempted_def)
qed

theorem run_returns_nil_after_signal_witness:
  "attempted (node_resolved sample_world)
     (fr_trace (snd (run sample_world (SetupSignalHandler sample_world) sample_log sample_config)))
   \<and> ctx_cancelled (SetupSignalHandler sample_world)
   \<and> fst (run sample_world (SetupSignalHandler sample_world) sample_log sample_config)
       = Returns None"
proof -
  have resolved: "attempted (node_resolved sample_world)
     (fr_trace (snd (run sample_world (SetupSignalHandler sample_world) sample_log
        sample_config)))"
    unfolding sample_run by (simp add: attempted_def sample_world_def)
  have cancelled: "ctx_cancelled (SetupSignalHandler sample_world)"
    by (simp add: SetupSignalHandler_def sample_world_def)
  from run_returns_nil_after_signal [OF resolved cancelled] resolved cancelled
  show ?thesis by simp
qed

text \<open>
  C6. Each bootstrap failure leaves \<^verbatim>\<open>run\<close> as a wrapped error: a failure of
  \<^verbatim>\<open>retrieveKubeConfig\<close> wrapped with "retrieving kube config", a failure of
  \<^verbatim>\<open>kubernetes.NewForConfig\<close> wrapped with "initializing kubernetes client", a failure of
  \<^verbatim>\<open>GetNode\<close> wrapped with "getting node". Nothing is recovered: a run in which any library
  call failed returns a wrapped error. Nothing is retried: the file read, the parse,
  in-cluster discovery, the client construction and the node lookup are each called at
  most once. And \<^verbatim>\<open>runCmd\<close> answers an error of \<^verbatim>\<open>run\<close> with a log line at fatal level,
  "eks-lens agent failed: " and the error's text, and the process exits with code 1.
\<close>

theorem bootstrap_failures_fatal:
  "(\<forall>k e tr. retrieveKubeConfig w log cfg = ((k, Some e), tr) \<longrightarrow>
      fst (run w c log cfg) = Returns (Some (errors_Wrap e ''retrieving kube config'')))
   \<and> (\<forall>rc tr e. retrieveKubeConfig w log cfg = ((Some rc, None), tr)
        \<and> NewForConfig w rc = Inl e \<longrightarrow>
      fst (run w c log cfg) =
        Returns (Some (errors_Wrap (External e) ''initializing kubernetes client'')))
   \<and> (\<forall>rc tr cs e. retrieveKubeConfig w log cfg = ((Some rc, None), tr)
        \<and> NewForConfig w rc = Inr cs
        \<and> GetNode w cs (fr_ctx (snd (run w c log cfg))) = Inl e \<longrightarrow>
      fst (run w c log cfg) = Returns (Some (errors_Wrap (External e) ''getting node'')))
   \<and> (attempted (call_failed w) (fr_trace (snd (run w c log cfg))) \<longrightarrow>
      (\<exists>e msg. fst (run w c log cfg) = Returns (Some (errors_Wrap e msg))))
   \<and> call_count is_file_read (fr_trace (snd (run w c log cfg))) \<le> 1
   \<and> call_count is_parse (fr_trace (snd (run w c log cfg))) \<le> 1
   \<and> call_count is_in_cluster (fr_trace (snd (run w c log cfg))) \<le> 1
   \<and> call_count is_new_client (fr_trace (snd (run w c log cfg))) \<le> 1
   \<and> call_count is_get_node (fr_trace (snd (run w c log cfg))) \<le> 1
   \<and> (\<forall>lg err fr.
        prepareLogger version (cli_String cc ''log-level'') (cli_Bool cc ''json'') = Some lg
        \<and> run w (SetupSignalHandler w) lg (LoadConfig cc) = (Returns (Some err), fr) \<longrightarrow>
      runCmd w version LoadConfig cc =
        (Exits 1,
         fr_trace fr @ [EvLog lg FatalLevel (''eks-lens agent failed: '' @ Error err)]))"
  using run_retrieve_error [of w log cfg _ _ _ c] run_client_error [of w log cfg _ _ _ c]
    run_node_error [of w log cfg _ _ _ c] run_failed_call_returns_error [of w c log cfg]
    run_calls_once [of w c log cfg] runCmd_fatal [of version cc _ w LoadConfig]
  by (simp add: run_frame_ctx)

theorem bootstrap_failures_fatal_witness:
  "retrieveKubeConfig sample_world sample_log (sample_config\<lparr>KubeConfigPath := ''/missing''\<rparr>) =
     ((None, Some (errors_Wrap
         (errors_Wrap (External (ExtError ''no such file or directory''))
            ''reading kubeconfig at /missing'')
         ''retrieving kube config from path'')),
      [EvReadFile ''/missing''])
   \<and> fst (run sample_world (SetupSignalHandler sample_world) sample_log
            (sample_config\<lparr>KubeConfigPath := ''/missing''\<rparr>)) =
       Returns (Some (errors_Wrap (errors_Wrap
         (errors_Wrap (External (ExtError ''no such file or directory''))
            ''reading kubeconfig at /missing'')
         ''retrieving kube config from path'') ''retrieving kube config''))
   \<and> attempted (call_failed sample_world)
       (fr_trace (snd (run sample_world (SetupSignalHandler sample_world) sample_log
            (sample_config\<lparr>KubeConfigPath := ''/missing''\<rparr>))))
   \<and> call_count is_file_read
       (fr_trace (snd (run sample_world (SetupSignalHandler sample_world) sample_log
            (sample_config\<lparr>KubeConfigPath := ''/missing''\<rparr>)))) \<le> 1
   \<and> NewForConfig (sample_world\<lparr>NewForConfig := (\<lambda>rc. Inl (ExtError ''invalid host''))\<rparr>)
        (RestConfig ''from file'') = Inl (ExtError ''invalid host'')
   \<and> fst (run (sample_world\<lparr>NewForConfig := (\<lambda>rc. Inl (ExtError ''invalid host''))\<rparr>)
            (SetupSignalHandler sample_world) sample_log sample_config) =
       Returns (Some (errors_Wrap (External (ExtError ''invalid host''))
         ''initializing kubernetes client''))
   \<and> GetNode (sample_world\<lparr>GetNode := (\<lambda>cs ctx. Inl (ExtError ''node not found''))\<rparr>)
        (Clientset (RestConfig ''from file''))
        (run_ctx (SetupSignalHandler sample_world) sample_config)
       = Inl (ExtError ''node not found'')
   \<and> fst (run (sample_world\<lparr>GetNode := (\<lambda>cs ctx. Inl (ExtError ''node not found''))\<rparr>)
            (SetupSignalHandler sample_world) sample_log sample_config) =
       Returns (Some (errors_Wrap (External (ExtError ''node not found'')) ''getting node''))
   \<and> prepareLogger ''v2'' (cli_String sample_cli ''log-level'') (cli_Bool sample_cli ''json'')
       = Some sample_log
   \<and> runCmd sample_world ''v2'' (\<lambda>cc. sample_config\<lparr>KubeConfigPath := ''/missing''\<rparr>) sample_cli =
     (Exits 1,
      [EvLog (WithField sample_log ''develop-mode'' (BoolField False)) InfoLevel
         ''kubeip agent started'',
       EvReadFile ''/missing'', EvCancel,
       EvLog sample_log FatalLevel
         ''eks-lens agent failed: retrieving kube config: retrieving kube config from path: reading kubeconfig at /missing: no such file or directory''])"
proof -
  note missing = bootstrap_failures_fatal
    [where w = sample_world and log = sample_log
      and cfg = "sample_config\<lparr>KubeConfigPath := ''/missing''\<rparr>"
      and c = "SetupSignalHandler sample_world" and version = "''v2''" and cc = sample_cli
      and LoadConfig = "\<lambda>cc. sample_config\<lparr>KubeConfigPath := ''/missing''\<rparr>"]
  note no_client = bootstrap_failures_fatal
    [where w = "sample_world\<lparr>NewForConfig := (\<lambda>rc. Inl (ExtError ''invalid host''))\<rparr>"
      and log = sample_log and cfg = sample_config and c = "SetupSignalHandler sample_world"]
  from missing sample_retrieve_missing [of sample_log]
  have "fst (run sample_world (SetupSignalHandler sample_world) sample_log
            (sample_config\<lparr>KubeConfigPath := ''/missing''\<rparr>)) =
       Returns (Some (errors_Wrap (errors_Wrap
         (errors_Wrap (External (ExtError ''no such file or directory''))
            ''reading kubeconfig at /missing'')
         ''retrieving kube config from path'') ''retrieving kube config''))"
    by blast
  moreover from missing
  have "call_count is_file_read
       (fr_trace (snd (run sample_world (SetupSignalHandler sample_world) sample_log
            (sample_config\<lparr>KubeConfigPath := ''/missing''\<rparr>)))) \<le> 1"
    by blast
  moreover have "attempted (call_failed sample_world)
       (fr_trace (snd (run sample_world (SetupSignalHandler sample_world) sample_log
            (sample_config\<lparr>KubeConfigPath := ''/missing''\<rparr>))))"
    unfolding sample_run_missing(2) by (simp add: attempted_def sample_world_def)
  moreover
  have failing: "NewForConfig
      (sample_world\<lparr>NewForConfig := (\<lambda>rc. Inl (ExtError ''invalid host''))\<rparr>)
      (RestConfig ''from file'') = Inl (ExtError ''invalid host'')"
    by simp
  moreover from no_client sample_retrieve_no_client [of _ sample_log] failing
  have "fst (run (sample_world\<lparr>NewForConfig := (\<lambda>rc. Inl (ExtError ''invalid host''))\<rparr>)
            (SetupSignalHandler sample_world) sample_log sample_config) =
       Returns (Some (errors_Wrap (External (ExtError ''invalid host''))
         ''initializing kubernetes client''))"
    by blast
  ultimately show ?thesis
    using sample_retrieve_missing [of sample_log] sample_logger sample_runCmd_missing
      sample_run_no_node(1) [of "SetupSignalHandler sample_world" sample_log]
    by simp
qed

text \<open>
  C8. Every bootstrap error makes \<^verbatim>\<open>run\<close> return that error, wrapped, without reaching the
  wait on \<^verbatim>\<open>ctx.Done()\<close>: an error of \<^verbatim>\<open>retrieveKubeConfig\<close> comes back wrapped with
  "retrieving kube config", an error of \<^verbatim>\<open>kubernetes.NewForConfig\<close> wrapped with
  "initializing kubernetes client", an error of \<^verbatim>\<open>GetNode\<close> wrapped with "getting node".
  The errors of \<^verbatim>\<open>retrieveKubeConfig\<close> are those of the file read, of the parse and of
  in-cluster discovery; the empty-path sentinel is not one of them, since with an empty
  path and a successful in-cluster discovery the config is retrieved. A run in which any
  library call failed has not waited and returns one of these three errors; no run that
  returns an error has waited; after a failed call \<^verbatim>\<open>run\<close> makes no further library call.
  The wait is reached only when \<^verbatim>\<open>retrieveKubeConfig\<close> gave a config,
  \<^verbatim>\<open>kubernetes.NewForConfig\<close> gave a client and \<^verbatim>\<open>GetNode\<close> gave a node.
\<close>

theorem run_waits_only_after_bootstrap:
  "(\<forall>k e tr. retrieveKubeConfig w log cfg = ((k, Some e), tr) \<longrightarrow>
      fst (run w c log cfg) = Returns (Some (errors_Wrap e ''retrieving kube config''))
      \<and> \<not> attempted is_wait (fr_trace (snd (run w c log cfg))))
   \<and> (\<forall>rc tr e. retrieveKubeConfig w log cfg = ((Some rc, None), tr)
        \<and> NewForConfig w rc = Inl e \<longrightarrow>
      fst (run w c log cfg) =
        Returns (Some (errors_Wrap (External e) ''initializing kubernetes client''))
      \<and> \<not> attempted is_wait (fr_trace (snd (run w c log cfg))))
   \<and> (\<forall>rc tr cs e. retrieveKubeConfig w log cfg = ((Some rc, None), tr)
        \<and> NewForConfig w rc = Inr cs
        \<and> GetNode w cs (fr_ctx (snd (run w c log cfg))) = Inl e \<longrightarrow>
      fst (run w c log cfg) = Returns (Some (errors_Wrap (External e) ''getting node''))
      \<and> \<not> attempted is_wait (fr_trace (snd (run w c log cfg))))
   \<and> (\<forall>x. KubeConfigPath cfg \<noteq> [] \<and> os_ReadFile w (KubeConfigPath cfg) = Inl x \<longrightarrow>
      fst (run w c log cfg) =
        Returns (Some (errors_Wrap (errors_Wrap
          (errors_Wrap (External x) (''reading kubeconfig at '' @ KubeConfigPath cfg))
          ''retrieving kube config from path'') ''retrieving kube config'')))
   \<and> (\<forall>d x. KubeConfigPath cfg \<noteq> [] \<and> os_ReadFile w (KubeConfigPath cfg) = Inr d
        \<and> RESTConfigFromKubeConfig w d = Inl x \<longrightarrow>
      fst (run w c log cfg) =
        Returns (Some (errors_Wrap (errors_Wrap
          (errors_Wrap (External x)
             (''building rest config from kubeconfig at '' @ KubeConfigPath cfg))
          ''retrieving kube config from path'') ''retrieving kube config'')))
   \<and> (\<forall>x. KubeConfigPath cfg = [] \<and> InClusterConfig w = Inl x \<longrightarrow>
      fst (run w c log cfg) =
        Returns (Some (errors_Wrap
          (errors_Wrap (External x) ''retrieving in node kube config'')
          ''retrieving kube config'')))
   \<and> (\<forall>rc. KubeConfigPath cfg = [] \<and> InClusterConfig w = Inr rc \<longrightarrow>
      fst (retrieveKubeConfig w log cfg) = (Some rc, None))
   \<and> (attempted (call_failed w) (fr_trace (snd (run w c log cfg))) \<longrightarrow>
      \<not> attempted is_wait (fr_trace (snd (run w c log cfg)))
      \<and> ((\<exists>e tr. retrieveKubeConfig w log cfg = ((None, Some e), tr)
            \<and> fst (run w c log cfg) =
                Returns (Some (errors_Wrap e ''retrieving kube config'')))
         \<or> (\<exists>rc tr e. retrieveKubeConfig w log cfg = ((Some rc, None), tr)
            \<and> NewForConfig w rc = Inl e
            \<and> fst (run w c log cfg) =
                Returns (Some (errors_Wrap (External e) ''initializing kubernetes client'')))
         \<or> (\<exists>rc tr cs e. retrieveKubeConfig w log cfg = ((Some rc, None), tr)
            \<and> NewForConfig w rc = Inr cs
            \<and> GetNode w cs (fr_ctx (snd (run w c log cfg))) = Inl e
            \<and> fst (run w c log cfg) =
                Returns (Some (errors_Wrap (External e) ''getting node'')))))
   \<and> (\<forall>e. fst (run w c log cfg) = Returns (Some e) \<longrightarrow>
      \<not> attempted is_wait (fr_trace (snd (run w c log cfg))))
   \<and> \<not> call_after_failure w (fr_trace (snd (run w c log cfg)))
   \<and> (attempted is_wait (fr_trace (snd (run w c log cfg))) \<longrightarrow>
      (\<exists>rc tr cs n. retrieveKubeConfig w log cfg = ((Some rc, None), tr)
         \<and> NewForConfig w rc = Inr cs
         \<and> GetNode w cs (fr_ctx (snd (run w c log cfg))) = Inr n))"
proof -
  have a: "\<forall>k e tr. retrieveKubeConfig w log cfg = ((k, Some e), tr) \<longrightarrow>
      fst (run w c log cfg) = Returns (Some (errors_Wrap e ''retrieving kube config''))
      \<and> \<not> attempted is_wait (fr_trace (snd (run w c log cfg)))"
    using run_retrieve_error_no_wait [of w log cfg _ _ _ c] by blast
  have b: "\<forall>rc tr e. retrieveKubeConfig w log cfg = ((Some rc, None), tr)
        \<and> NewForConfig w rc = Inl e \<longrightarrow>
      fst (run w c log cfg) =
        Returns (Some (errors_Wrap (External e) ''initializing kubernetes client''))
      \<and> \<not> attempted is_wait (fr_trace (snd (run w c log cfg)))"
    using run_client_error_no_wait [of w log cfg _ _ _ c] by blast
  have d: "\<forall>rc tr cs e. retrieveKubeConfig w log cfg = ((Some rc, None), tr)
        \<and> NewForConfig w rc = Inr cs
        \<and> GetNode w cs (fr_ctx (snd (run w c log cfg))) = Inl e \<longrightarrow>
      fst (run w c log cfg) = Returns (Some (errors_Wrap (External e) ''getting node''))
      \<and> \<not> attempted is_wait (fr_trace (snd (run w c log cfg)))"
    unfolding run_frame_ctx using run_node_error_no_wait [of w log cfg _ _ _ c] by blast
  have e1: "\<forall>x. KubeConfigPath cfg \<noteq> [] \<and> os_ReadFile w (KubeConfigPath cfg) = Inl x \<longrightarrow>
      fst (run w c log cfg) =
        Returns (Some (errors_Wrap (errors_Wrap
          (errors_Wrap (External x) (''reading kubeconfig at '' @ KubeConfigPath cfg))
          ''retrieving kube config from path'') ''retrieving kube config''))"
    using a retrieve_read_failure [of cfg w _ log] by blast
  have e2: "\<forall>d x. KubeConfigPath cfg \<noteq> [] \<and> os_ReadFile w (KubeConfigPath cfg) = Inr d
        \<and> RESTConfigFromKubeConfig w d = Inl x \<longrightarrow>
      fst (run w c log cfg) =
        Returns (Some (errors_Wrap (errors_Wrap
          (errors_Wrap (External x)
             (''building rest config from kubeconfig at '' @ KubeConfigPath cfg))
          ''retrieving kube config from path'') ''retrieving kube config''))"
    using a retrieve_parse_failure [of cfg w _ _ log] by blast
  have e3: "\<forall>x. KubeConfigPath cfg = [] \<and> InClusterConfig w = Inl x \<longrightarrow>
      fst (run w c log cfg) =
        Returns (Some (errors_Wrap
          (errors_Wrap (External x) ''retrieving in node kube config'')
          ''retrieving kube config''))"
    using a retrieve_in_cluster_failure [of cfg w _ log] by blast
  have e4: "\<forall>rc. KubeConfigPath cfg = [] \<and> InClusterConfig w = Inr rc \<longrightarrow>
      fst (retrieveKubeConfig w log cfg) = (Some rc, None)"
    using retrieve_in_cluster_success [of cfg w _ log] by simp
  have f: "attempted (call_failed w) (fr_trace (snd (run w c log cfg))) \<longrightarrow>
      \<not> attempted is_wait (fr_trace (snd (run w c log cfg)))
      \<and> ((\<exists>e tr. retrieveKubeConfig w log cfg = ((None, Some e), tr)
            \<and> fst (run w c log cfg) =
                Returns (Some (errors_Wrap e ''retrieving kube config'')))
         \<or> (\<exists>rc tr e. retrieveKubeConfig w log cfg = ((Some rc, None), tr)
            \<and> NewForConfig w rc = Inl e
            \<and> fst (run w c log cfg) =
                Returns (Some (errors_Wrap (External e) ''initializing kubernetes client'')))
         \<or> (\<exists>rc tr cs e. retrieveKubeConfig w log cfg = ((Some rc, None), tr)
            \<and> NewForConfig w rc = Inr cs
            \<and> GetNode w cs (fr_ctx (snd (run w c log cfg))) = Inl e
            \<and> fst (run w c log cfg) =
                Returns (Some (errors_Wrap (External e) ''getting node''))))"
    unfolding run_frame_ctx
    using run_failed_call_exact [of w c log cfg] run_failed_call_returns_error [of w c log cfg]
    by blast
  have g: "\<forall>e. fst (run w c log cfg) = Returns (Some e) \<longrightarrow>
      \<not> attempted is_wait (fr_trace (snd (run w c log cfg)))"
    using run_error_never_waits [of w c log cfg] by blast
  have h: "\<not> call_after_failure w (fr_trace (snd (run w c log cfg)))"
    by (rule run_stops_at_failure)
  have i: "attempted is_wait (fr_trace (snd (run w c log cfg))) \<longrightarrow>
      (\<exists>rc tr cs n. retrieveKubeConfig w log cfg = ((Some rc, None), tr)
         \<and> NewForConfig w rc = Inr cs
         \<and> GetNode w cs (fr_ctx (snd (run w c log cfg))) = Inr n)"
    unfolding run_frame_ctx using run_wait_after_bootstrap [of w c log cfg] by blast
  from a b d e1 e2 e3 e4 f g h i show ?thesis by (intro conjI)
qed

theorem run_waits_only_after_bootstrap_witness:
  "KubeConfigPath (sample_config\<lparr>KubeConfigPath := ''/missing''\<rparr>) \<noteq> []
   \<and> os_ReadFile sample_world (KubeConfigPath (sample_config\<lparr>KubeConfigPath := ''/missing''\<rparr>))
       = Inl (ExtError ''no such file or directory'')
   \<and> fst (run sample_world (SetupSignalHandler sample_world) sample_log
            (sample_config\<lparr>KubeConfigPath := ''/missing''\<rparr>)) =
       Returns (Some (errors_Wrap (errors_Wrap
         (errors_Wrap (External (ExtError ''no such file or directory''))
            ''reading kubeconfig at /missing'')
         ''retrieving kube config from path'') ''retrieving kube config''))
   \<and> \<not> attempted is_wait
       (fr_trace (snd (run sample_world (SetupSignalHandler sample_world) sample_log
            (sample_config\<lparr>KubeConfigPath := ''/missing''\<rparr>))))
   \<and> KubeConfigPath (sample_config\<lparr>KubeConfigPath := []\<rparr>) = []
   \<and> InClusterConfig (sample_world\<lparr>InClusterConfig := Inl (ExtError ''not in a cluster'')\<rparr>)
       = Inl (ExtError ''not in a cluster'')
   \<and> fst (run (sample_world\<lparr>InClusterConfig := Inl (ExtError ''not in a cluster'')\<rparr>)
            (SetupSignalHandler sample_world) sample_log
            (sample_config\<lparr>KubeConfigPath := []\<rparr>)) =
       Returns (Some (errors_Wrap
         (errors_Wrap (External (ExtError ''not in a cluster''))
            ''retrieving in node kube config'')
         ''retrieving kube config''))
   \<and> InClusterConfig sample_world = Inr (RestConfig ''in cluster'')
   \<and> fst (retrieveKubeConfig sample_world sample_log (sample_config\<lparr>KubeConfigPath := []\<rparr>))
       = (Some (RestConfig ''in cluster''), None)
   \<and> NewForConfig (sample_world\<lparr>NewForConfig := (\<lambda>rc. Inl (ExtError ''invalid host''))\<rparr>)
        (RestConfig ''from file'') = Inl (ExtError ''invalid host'')
   \<and> fst (run (sample_world\<lparr>NewForConfig := (\<lambda>rc. Inl (ExtError ''invalid host''))\<rparr>)
            (SetupSignalHandler sample_world) sample_log sample_config) =
       Returns (Some (errors_Wrap (External (ExtError ''invalid host''))
         ''initializing kubernetes client''))
   \<and> \<not> attempted is_wait
       (fr_trace (snd (run (sample_world\<lparr>NewForConfig := (\<lambda>rc. Inl (ExtError ''invalid host''))\<rparr>)
            (SetupSignalHandler sample_world) sample_log sample_config)))
   \<and> attempted (call_failed (sample_world\<lparr>GetNode := (\<lambda>cs ctx. Inl (ExtError ''node not found''))\<rparr>))
       (fr_trace (snd (run (sample_world\<lparr>GetNode := (\<lambda>cs ctx. Inl (ExtError ''node not found''))\<rparr>)
          (SetupSignalHandler sample_world) sample_log sample_config)))
   \<and> fst (run (sample_world\<lparr>GetNode := (\<lambda>cs ctx. Inl (ExtError ''node not found''))\<rparr>)
          (SetupSignalHandler sample_world) sample_log sample_config)
       = Returns (Some (errors_Wrap (External (ExtError ''node not found'')) ''getting node''))
   \<and> \<not> attempted is_wait
       (fr_trace (snd (run (sample_world\<lparr>GetNode := (\<lambda>cs ctx. Inl (ExtError ''node not found''))\<rparr>)
          (SetupSignalHandler sample_world) sample_log sample_config)))
   \<and> attempted is_wait
       (fr_trace (snd (run sample_world (SetupSignalHandler sample_world) sample_log
          sample_config)))
   \<and> fst (retrieveKubeConfig sample_world sample_log sample_config)
       = (Some (RestConfig ''from file''), None)"
proof -
  note missing = run_waits_only_after_bootstrap
    [where w = sample_world and log = sample_log
      and cfg = "sample_config\<lparr>KubeConfigPath := ''/missing''\<rparr>"
      and c = "SetupSignalHandler sample_world"]
  note outside = run_waits_only_after_bootstrap
    [where w = "sample_world\<lparr>InClusterConfig := Inl (ExtError ''not in a cluster'')\<rparr>"
      and log = sample_log and cfg = "sample_config\<lparr>KubeConfigPath := []\<rparr>"
      and c = "SetupSignalHandler sample_world"]
  note inside = run_waits_only_after_bootstrap
    [where w = sample_world and log = sample_log
      and cfg = "sample_config\<lparr>KubeConfigPath := []\<rparr>"
      and c = "SetupSignalHandler sample_world"]
  note no_client = run_waits_only_after_bootstrap
    [where w = "sample_world\<lparr>NewForConfig := (\<lambda>rc. Inl (ExtError ''invalid host''))\<rparr>"
      and log = sample_log and cfg = sample_config and c = "SetupSignalHandler sample_world"]
  note no_node = run_waits_only_after_bootstrap
    [where w = "sample_world\<lparr>GetNode := (\<lambda>cs ctx. Inl (ExtError ''node not found''))\<rparr>"
      and log = sample_log and cfg = sample_config and c = "SetupSignalHandler sample_world"]
  have path: "KubeConfigPath (sample_config\<lparr>KubeConfigPath := ''/missing''\<rparr>) \<noteq> []"
    by simp
  have unread: "os_ReadFile sample_world
      (KubeConfigPath (sample_config\<lparr>KubeConfigPath := ''/missing''\<rparr>))
        = Inl (ExtError ''no such file or directory'')"
    by (simp add: sample_world_def)
  from missing path unread
  have "fst (run sample_world (SetupSignalHandler sample_world) sample_log
            (sample_config\<lparr>KubeConfigPath := ''/missing''\<rparr>)) =
       Returns (Some (errors_Wrap (errors_Wrap
         (errors_Wrap (External (ExtError ''no such file or directory''))
            (''reading kubeconfig at '' @
               KubeConfigPath (sample_config\<lparr>KubeConfigPath := ''/missing''\<rparr>)))
         ''retrieving kube config from path'') ''retrieving kube config''))"
    by blast
  then have r1: "fst (run sample_world (SetupSignalHandler sample_world) sample_log
            (sample_config\<lparr>KubeConfigPath := ''/missing''\<rparr>)) =
       Returns (Some (errors_Wrap (errors_Wrap
         (errors_Wrap (External (ExtError ''no such file or directory''))
            ''reading kubeconfig at /missing'')
         ''retrieving kube config from path'') ''retrieving kube config''))"
    by simp
  with missing
  have w1: "\<not> attempted is_wait
       (fr_trace (snd (run sample_world (SetupSignalHandler sample_world) sample_log
            (sample_config\<lparr>KubeConfigPath := ''/missing''\<rparr>))))"
    by blast
  have empty: "KubeConfigPath (sample_config\<lparr>KubeConfigPath := []\<rparr>) = []"
    by simp
  have out: "InClusterConfig
      (sample_world\<lparr>InClusterConfig := Inl (ExtError ''not in a cluster'')\<rparr>)
        = Inl (ExtError ''not in a cluster'')"
    by simp
  from outside empty out
  have r2: "fst (run (sample_world\<lparr>InClusterConfig := Inl (ExtError ''not in a cluster'')\<rparr>)
            (SetupSignalHandler sample_world) sample_log
            (sample_config\<lparr>KubeConfigPath := []\<rparr>)) =
       Returns (Some (errors_Wrap
         (errors_Wrap (External (ExtError ''not in a cluster''))
            ''retrieving in node kube config'')
         ''retrieving kube config''))"
    by blast
  have inc: "InClusterConfig sample_world = Inr (RestConfig ''in cluster'')"
    by (simp add: sample_world_def)
  from inside empty inc
  have r3: "fst (retrieveKubeConfig sample_world sample_log
      (sample_config\<lparr>KubeConfigPath := []\<rparr>)) = (Some (RestConfig ''in cluster''), None)"
    by blast
  have refused: "NewForConfig
      (sample_world\<lparr>NewForConfig := (\<lambda>rc. Inl (ExtError ''invalid host''))\<rparr>)
      (RestConfig ''from file'') = Inl (ExtError ''invalid host'')"
    by simp
  from no_client sample_retrieve_no_client [of _ sample_log] refused
  have r4: "fst (run (sample_world\<lparr>NewForConfig := (\<lambda>rc. Inl (ExtError ''invalid host''))\<rparr>)
            (SetupSignalHandler sample_world) sample_log sample_config) =
       Returns (Some (errors_Wrap (External (ExtError ''invalid host''))
         ''initializing kubernetes client''))
     \<and> \<not> attempted is_wait
       (fr_trace (snd (run (sample_world\<lparr>NewForConfig := (\<lambda>rc. Inl (ExtError ''invalid host''))\<rparr>)
            (SetupSignalHandler sample_world) sample_log sample_config)))"
    by blast
  have failed: "attempted
      (call_failed (sample_world\<lparr>GetNode := (\<lambda>cs ctx. Inl (ExtError ''node not found''))\<rparr>))
      (fr_trace (snd (run (sample_world\<lparr>GetNode := (\<lambda>cs ctx. Inl (ExtError ''node not found''))\<rparr>)
        (SetupSignalHandler sample_world) sample_log sample_config)))"
    by (simp add: sample_run_no_node(2) attempted_def)
  with no_node
  have w5: "\<not> attempted is_wait
     (fr_trace (snd (run (sample_world\<lparr>GetNode := (\<lambda>cs ctx. Inl (ExtError ''node not found''))\<rparr>)
        (SetupSignalHandler sample_world) sample_log sample_config)))"
    by blast
  have r5: "fst (run (sample_world\<lparr>GetNode := (\<lambda>cs ctx. Inl (ExtError ''node not found''))\<rparr>)
          (SetupSignalHandler sample_world) sample_log sample_config)
       = Returns (Some (errors_Wrap (External (ExtError ''node not found'')) ''getting node''))"
    by (rule sample_run_no_node(1))
  have waited: "attempted is_wait
       (fr_trace (snd (run sample_world (SetupSignalHandler sample_world) sample_log
          sample_config)))"
    by (simp add: sample_run attempted_def)
  have got: "fst (retrieveKubeConfig sample_world sample_log sample_config)
       = (Some (RestConfig ''from file''), None)"
    by (simp add: sample_retrieve)
  from path unread r1 w1 empty out r2 inc r3 refused r4 failed r5 w5 waited got
  show ?thesis by (intro conjI) blast+
qed

text \<open>
  C10. The context \<^verbatim>\<open>run\<close> derives, and passes to \<^verbatim>\<open>GetNode\<close>, is its argument with the
  value \<^verbatim>\<open>true\<close> attached under \<^verbatim>\<open>developModeKey\<close> when \<^verbatim>\<open>DevelopMode\<close> is true, and with
  nothing attached when it is false. So for a parent context that carries no value under
  that key, as the signal-handler context that \<^verbatim>\<open>runCmd\<close> passes does, the derived context
  carries the develop-mode value if and only if \<^verbatim>\<open>DevelopMode\<close> is true, and carries no
  develop-mode key when it is false. In both cases the configuration is unchanged when
  \<^verbatim>\<open>run\<close> stops.
\<close>

theorem run_develop_mode_context:
  "ctx_values (fr_ctx (snd (run w c log cfg))) =
     (if DevelopMode cfg then [(developModeKey, True)] else []) @ ctx_values c
   \<and> (DevelopMode cfg \<longrightarrow>
        context_Value (fr_ctx (snd (run w c log cfg))) developModeKey = Some True)
   \<and> (\<not> DevelopMode cfg \<longrightarrow>
        context_Value (fr_ctx (snd (run w c log cfg))) developModeKey
          = context_Value c developModeKey)
   \<and> (context_Value c developModeKey = None \<longrightarrow>
        (context_Value (fr_ctx (snd (run w c log cfg))) developModeKey = Some True
           \<longleftrightarrow> DevelopMode cfg)
        \<and> (\<not> DevelopMode cfg \<longrightarrow>
             context_Value (fr_ctx (snd (run w c log cfg))) developModeKey = None))
   \<and> context_Value (SetupSignalHandler w) developModeKey = None
   \<and> (\<forall>cs ctx. EvGetNode cs ctx \<in> set (fr_trace (snd (run w c log cfg))) \<longrightarrow>
        ctx = fr_ctx (snd (run w c log cfg)))
   \<and> fr_cfg (snd (run w c log cfg)) = cfg"
  using run_get_node_ctx [of _ _ w c log cfg]
  by (simp add: run_frame_ctx run_frame_cfg run_ctx_values context_Value_def
      SetupSignalHandler_def)

theorem run_develop_mode_context_witness:
  "context_Value (SetupSignalHandler sample_world) developModeKey = None
   \<and> DevelopMode (sample_config\<lparr>DevelopMode := True\<rparr>)
   \<and> context_Value
       (fr_ctx (snd (run sample_world (SetupSignalHandler sample_world) sample_log
          (sample_config\<lparr>DevelopMode := True\<rparr>)))) developModeKey = Some True
   \<and> \<not> DevelopMode sample_config
   \<and> context_Value
       (fr_ctx (snd (run sample_world (SetupSignalHandler sample_world) sample_log
          sample_config))) developModeKey = None
   \<and> fr_cfg (snd (run sample_world (SetupSignalHandler sample_world) sample_log
          (sample_config\<lparr>DevelopMode := True\<rparr>))) = sample_config\<lparr>DevelopMode := True\<rparr>"
  using run_develop_mode_context
      [of sample_world "SetupSignalHandler sample_world" sample_log
        "sample_config\<lparr>DevelopMode := True\<rparr>"]
    run_develop_mode_context
      [of sample_world "SetupSignalHandler sample_world" sample_log sample_config]
  by (simp add: sample_config_def)

end
